theory Spec2Isabelle
  imports Complex_Main
begin

section \<open>scn2cam: camera creation for indoor scenes\<close>

text \<open>
  A shallow embedding of \<^verbatim>\<open>src/apps/scn2cam/scn2cam.cpp\<close>.

  Conventions.
  \<^item> A C \<^verbatim>\<open>double\<close> (\<^verbatim>\<open>RNScalar\<close>) is a \<open>real\<close>.  Two rounded operations are parameters of
    the model: the quotient that is truncated to the resolution of the mask grid
    (\<open>divide_RNScalar\<close>) and the sum that accumulates the keypoint parameters and advances
    the parameter of the resampling loop (\<open>add_RNScalar\<close>).  Elsewhere the arithmetic is
    exact.  Where a C operation yields a value that is not a finite number (\<^verbatim>\<open>log\<close> of an
    argument that is not positive) the model returns \<open>None\<close>.
  \<^item> A C \<^verbatim>\<open>int\<close> is an \<open>int\<close>.  The two \<^verbatim>\<open>int\<close> products of the scoring function
    (\<^verbatim>\<open>width * height\<close> and \<^verbatim>\<open>node_count * pixel_count\<close>) are wrapped to 32 bits by
    \<open>int_wrap\<close>; counters that are incremented once per pixel or once per node are not.
  \<^item> A scene node is its index in the scene's node array (\<^verbatim>\<open>R3Scene::Node(i)\<close>).
  \<^item> The GAPS library (R3Graphics, R2Shapes, RNBasics) is not part of the source file.
    Rendering, ray intersection, rasterization, random numbers and bounding boxes are
    parameters of the functions that use them.
\<close>

subsection \<open>C arithmetic\<close>

definition INT_MAX :: int where
  "INT_MAX = 2147483647"

definition INT_MIN :: int where
  "INT_MIN = - 2147483648"

text \<open>32-bit two's complement wrap-around of an \<^verbatim>\<open>int\<close> result.\<close>

definition int_wrap :: "int \<Rightarrow> int" where
  "int_wrap x = (x + 2147483648) mod 4294967296 - 2147483648"

text \<open>The cast \<^verbatim>\<open>(int) x\<close> of a double: truncation towards zero.\<close>

definition c_int :: "real \<Rightarrow> int" where
  "c_int x = (if 0 \<le> x then \<lfloor>x\<rfloor> else \<lceil>x\<rceil>)"

text \<open>The C quotient \<^verbatim>\<open>a / b\<close> of two ints (\<open>b\<close> not zero): truncation towards zero.\<close>

definition c_div :: "int \<Rightarrow> int \<Rightarrow> int" where
  "c_div a b = sgn a * sgn b * (\<bar>a\<bar> div \<bar>b\<bar>)"

text \<open>
  \<^verbatim>\<open>log(n)\<close> of an int converted to double: the natural logarithm of a positive argument;
  minus infinity at 0 and NaN below, which are \<open>None\<close> here.
\<close>

definition c_log :: "int \<Rightarrow> real option" where
  "c_log n = (if 0 < n then Some (ln (real_of_int n)) else None)"

text \<open>\<^verbatim>\<open>sum += x\<close> on doubles, where either side may already be non-finite.\<close>

definition add_scalar :: "real option \<Rightarrow> real option \<Rightarrow> real option" where
  "add_scalar a b = (case a of None \<Rightarrow> None | Some x \<Rightarrow> (case b of None \<Rightarrow> None | Some y \<Rightarrow> Some (x + y)))"

subsection \<open>C strings\<close>

text \<open>\<^verbatim>\<open>strncmp(s, t, n) == 0\<close>: the first \<open>n\<close> characters agree (or both strings end before).\<close>

definition strncmp_zero :: "string \<Rightarrow> string \<Rightarrow> nat \<Rightarrow> bool" where
  "strncmp_zero s t n = (take n s = take n t)"

text \<open>\<^verbatim>\<open>strstr(s, t) != NULL\<close>: \<open>t\<close> occurs in \<open>s\<close> as a contiguous block.\<close>

fun strstr :: "string \<Rightarrow> string \<Rightarrow> bool" where
  "strstr [] t = (t = [])"
| "strstr (c # s) t = (take (length t) (c # s) = t \<or> strstr s t)"

subsection \<open>Data\<close>

type_synonym R3Point = "real \<times> real \<times> real"

record R3Camera =
  Origin :: R3Point
  Towards :: R3Point
  Up :: R3Point
  XFOV :: real
  YFOV :: real
  Near :: real
  Far :: real
  Value :: real

text \<open>\<^verbatim>\<open>struct Camera : public R3Camera\<close> with its \<^verbatim>\<open>char *name\<close> (\<open>None\<close> is \<^verbatim>\<open>NULL\<close>).\<close>

record Camera = R3Camera +
  name :: "string option"

record R3SceneNode =
  Name :: "string option"
  Children :: "nat list"
  Parent :: "nat option"

record R3Scene =
  Nodes :: "R3SceneNode list"
  Root :: nat

definition NNodes :: "R3Scene \<Rightarrow> nat" where
  "NNodes scn = length (Nodes scn)"

definition NChildren :: "R3SceneNode \<Rightarrow> nat" where
  "NChildren node = length (Children node)"

text \<open>The program variables that the modelled functions read.\<close>

record program_variables =
  width :: int
  height :: int
  scene_scoring_method :: int
  min_visible_objects :: real
  min_visible_fraction :: real
  min_distance_from_obstacle :: real
  min_score :: real
  eye_height :: real
  eye_height_radius :: real
  angle_sampling :: real

text \<open>
  What the scoring function takes from the library: the grid's marker for a pixel without
  a node (\<^verbatim>\<open>R2_GRID_UNKNOWN_VALUE\<close>) and the image that \<^verbatim>\<open>RenderImage\<close> produces for a
  camera and a root node (with no selected node and the node index image type): the
  entries of the \<^verbatim>\<open>R2Grid\<close> in storage order.
\<close>

record renderer =
  R2_GRID_UNKNOWN_VALUE :: real
  RenderImage :: "R3Camera \<Rightarrow> nat \<Rightarrow> real list"

text \<open>One call of \<^verbatim>\<open>RenderImage\<close>: the camera and the root node it was given.\<close>

type_synonym render_call = "R3Camera \<times> nat"

subsection \<open>Camera scoring\<close>

definition IsObject :: "R3SceneNode \<Rightarrow> bool" where
  "IsObject node =
     (if NChildren node > 0 then False
      else case Name node of
        None \<Rightarrow> True
      | Some nm \<Rightarrow>
          if strncmp_zero nm ''Walls#'' 6 then False
          else if strncmp_zero nm ''Floors#'' 7 then False
          else if strncmp_zero nm ''Ceilings#'' 9 then False
          else if strstr nm ''Door'' then False
          else if strstr nm ''Window'' then False
          else True)"

text \<open>The body of the loop that logs the pixels visible on each node.\<close>

definition log_pixel :: "real \<Rightarrow> nat \<Rightarrow> int list \<Rightarrow> real \<Rightarrow> int list" where
  "log_pixel unknown nnodes node_pixel_counts v =
     (if v = unknown then node_pixel_counts
      else let node_index = c_int (v + 0.5) in
        if node_index < 0 \<or> node_index \<ge> int nnodes then node_pixel_counts
        else node_pixel_counts[nat node_index := node_pixel_counts ! nat node_index + 1])"

definition count_node_pixels :: "real \<Rightarrow> nat \<Rightarrow> real list \<Rightarrow> int list" where
  "count_node_pixels unknown nnodes img =
     foldl (log_pixel unknown nnodes) (replicate nnodes 0) img"

text \<open>
  The loop of both scoring methods over the nodes: a node is skipped unless it is an
  object with more than \<open>min_pixel_count_per_object\<close> pixels.
\<close>

definition counts_towards_score :: "R3Scene \<Rightarrow> int list \<Rightarrow> int \<Rightarrow> nat \<Rightarrow> bool" where
  "counts_towards_score scn node_pixel_counts min_pixel_count_per_object i =
     (IsObject (Nodes scn ! i) \<and> \<not> node_pixel_counts ! i \<le> min_pixel_count_per_object)"

text \<open>Method 0: \<open>(node_count, pixel_count)\<close> after the loop.\<close>

definition method0_step :: "R3Scene \<Rightarrow> int list \<Rightarrow> int \<Rightarrow> int \<times> int \<Rightarrow> nat \<Rightarrow> int \<times> int" where
  "method0_step scn node_pixel_counts m acc i =
     (if counts_towards_score scn node_pixel_counts m i
      then (fst acc + 1, snd acc + node_pixel_counts ! i) else acc)"

definition method0_loop :: "R3Scene \<Rightarrow> int list \<Rightarrow> int \<Rightarrow> int \<times> int" where
  "method0_loop scn node_pixel_counts m =
     foldl (method0_step scn node_pixel_counts m) (0, 0) [0 ..< NNodes scn]"

text \<open>Method 1: \<open>(node_count, sum)\<close> after the loop; the quotient is the quotient of two ints.\<close>

definition method1_step :: "R3Scene \<Rightarrow> int list \<Rightarrow> int \<Rightarrow> int \<times> real option \<Rightarrow> nat \<Rightarrow> int \<times> real option" where
  "method1_step scn node_pixel_counts m acc i =
     (if counts_towards_score scn node_pixel_counts m i
      then (fst acc + 1, add_scalar (snd acc) (c_log (c_div (node_pixel_counts ! i) m))) else acc)"

definition method1_loop :: "R3Scene \<Rightarrow> int list \<Rightarrow> int \<Rightarrow> int \<times> real option" where
  "method1_loop scn node_pixel_counts m =
     foldl (method1_step scn node_pixel_counts m) (0, Some 0) [0 ..< NNodes scn]"

text \<open>
  \<^verbatim>\<open>SceneCoverageScore(camera, scene, parent_node)\<close>: the score, and the calls of
  \<^verbatim>\<open>RenderImage\<close> it made.  The image is rendered from \<^verbatim>\<open>scene->Root()\<close>; the body never
  reads \<open>parent_node\<close>.
\<close>

definition SceneCoverageScore ::
  "program_variables \<Rightarrow> renderer \<Rightarrow> R3Camera \<Rightarrow> R3Scene \<Rightarrow> nat option \<Rightarrow> real option \<times> render_call list" where
  "SceneCoverageScore pv rd camera scn parent_node =
     (let max_pixel_count = int_wrap (width pv * height pv) in
      if max_pixel_count = 0 then (Some 0, [])
      else
        let min_pixel_count_per_object = c_int (min_visible_fraction pv * real_of_int max_pixel_count) in
        if min_pixel_count_per_object = 0 then (Some 0, [])
        else
          let img = RenderImage rd camera (Root scn);
              node_pixel_counts = count_node_pixels (R2_GRID_UNKNOWN_VALUE rd) (NNodes scn) img;
              score =
                (if scene_scoring_method pv = 0 then
                   let nc_pc = method0_loop scn node_pixel_counts min_pixel_count_per_object in
                   if real_of_int (fst nc_pc) > min_visible_objects pv
                   then Some (real_of_int (int_wrap (fst nc_pc * snd nc_pc)) / real_of_int max_pixel_count)
                   else Some 0
                 else if scene_scoring_method pv = 1 then
                   let nc_sum = method1_loop scn node_pixel_counts min_pixel_count_per_object in
                   if real_of_int (fst nc_sum) > min_visible_objects pv then snd nc_sum else Some 0
                 else Some 0)
          in (score, [(camera, Root scn)]))"


subsection \<open>Object coverage\<close>

record R3Triangle =
  TriangleArea :: real

datatype R3Shape =
  R3TriangleArray real "R3Triangle list"
| R3OtherShape real

text \<open>\<^verbatim>\<open>shape->Area()\<close> and the triangles of a shape of class \<^verbatim>\<open>R3TriangleArray\<close>.\<close>

fun ShapeArea :: "R3Shape \<Rightarrow> real" where
  "ShapeArea (R3TriangleArray a ts) = a"
| "ShapeArea (R3OtherShape a) = a"

fun Triangles :: "R3Shape \<Rightarrow> R3Triangle list" where
  "Triangles (R3TriangleArray a ts) = ts"
| "Triangles (R3OtherShape a) = []"

text \<open>
  What \<^verbatim>\<open>ObjectCoverageScore\<close> takes from the scene and the library: the scale factor of
  the transformation accumulated from a node to the root, the shapes of the node's
  elements, the ray intersection of the scene (for a ray from an origin through a point up
  to a maximal parameter: the node hit, if any is reported, and the hit parameter), the
  tolerance tests, the values of successive calls of \<^verbatim>\<open>RNRandomScalar\<close>, and the
  transformed point of the \<open>n\<close>-th sample drawn on a triangle.
\<close>

record scene_query =
  ScaleFactor :: "nat \<Rightarrow> real"
  Elements :: "nat \<Rightarrow> R3Shape list list"
  Intersects :: "R3Point \<Rightarrow> R3Point \<Rightarrow> real \<Rightarrow> (nat option \<times> real) option"
  RNIsZero :: "real \<Rightarrow> bool"
  RNIsEqual :: "real \<Rightarrow> real \<Rightarrow> real \<Rightarrow> bool"
  RNRandomScalar :: "nat \<Rightarrow> real"
  RandomPoint :: "R3Triangle \<Rightarrow> nat \<Rightarrow> R3Point"

text \<open>The function's static variables: \<^verbatim>\<open>last_node\<close> and the first \<^verbatim>\<open>npoints\<close> points.\<close>

record coverage_statics =
  last_node :: "nat option"
  points :: "R3Point list"

definition initial_statics :: coverage_statics where
  "initial_statics = \<lparr>last_node = None, points = []\<rparr>"

definition max_npoints :: nat where
  "max_npoints = 1024"

definition target_npoints :: real where
  "target_npoints = 512"

definition total_area_of :: "scene_query \<Rightarrow> nat \<Rightarrow> real" where
  "total_area_of sq node =
     foldl (\<lambda>total shape. total + ScaleFactor sq node * ShapeArea shape) 0 (concat (Elements sq node))"

text \<open>
  The samples of one triangle, appended to the points so far; the second component counts
  the calls of \<^verbatim>\<open>RNRandomScalar\<close>.  The inner loop stops at \<open>max_npoints\<close> points.
\<close>

definition sample_triangle ::
  "scene_query \<Rightarrow> real \<Rightarrow> real \<Rightarrow> R3Point list \<times> nat \<Rightarrow> R3Triangle \<Rightarrow> R3Point list \<times> nat" where
  "sample_triangle sq scale total_area acc triangle =
     (let area = scale * TriangleArea triangle;
          real_nsamples = target_npoints * area / total_area;
          nsamples0 = c_int real_nsamples;
          nsamples = (if RNRandomScalar sq (snd acc) < real_nsamples - real_of_int nsamples0
                      then nsamples0 + 1 else nsamples0);
          room_left = max_npoints - length (fst acc);
          drawn = map (\<lambda>m. RandomPoint sq triangle (length (fst acc) + m))
                      [0 ..< min (nat nsamples) room_left]
      in (fst acc @ drawn, snd acc + 1))"

definition generate_points :: "scene_query \<Rightarrow> nat \<Rightarrow> real \<Rightarrow> R3Point list" where
  "generate_points sq node total_area =
     fst (foldl (sample_triangle sq (ScaleFactor sq node) total_area) ([], 0)
            (concat (map Triangles (concat (Elements sq node)))))"

definition R3Distance :: "R3Point \<Rightarrow> R3Point \<Rightarrow> real" where
  "R3Distance p q =
     sqrt ((fst p - fst q)\<^sup>2 + (fst (snd p) - fst (snd q))\<^sup>2 + (snd (snd p) - snd (snd q))\<^sup>2)"

text \<open>The test of the counting loop: the sample point is hit first, on the node itself.\<close>

definition point_is_visible :: "scene_query \<Rightarrow> R3Camera \<Rightarrow> nat \<Rightarrow> R3Point \<Rightarrow> bool" where
  "point_is_visible sq camera node point =
     (let tolerance_t = 0.01;
          max_t = R3Distance (Origin camera) point + tolerance_t
      in case Intersects sq (Origin camera) point max_t of
           None \<Rightarrow> False
         | Some hit \<Rightarrow> fst hit = Some node \<and> RNIsEqual sq (snd hit) max_t tolerance_t)"

definition ObjectCoverageScore ::
  "scene_query \<Rightarrow> coverage_statics \<Rightarrow> R3Camera \<Rightarrow> nat \<Rightarrow> real \<times> coverage_statics" where
  "ObjectCoverageScore sq st camera node =
     (if last_node st \<noteq> Some node \<and> RNIsZero sq (total_area_of sq node)
      then (0, \<lparr>last_node = Some node, points = []\<rparr>)
      else
        let st1 = (if last_node st \<noteq> Some node
                   then \<lparr>last_node = Some node,
                         points = generate_points sq node (total_area_of sq node)\<rparr>
                   else st);
            npoints = length (points st1)
        in if npoints = 0 then (0, st1)
           else
             let nvisible = length (filter (point_is_visible sq camera node) (points st1))
             in (real nvisible / real npoints, st1))"

subsection \<open>Viewpoint mask\<close>

record R3Box =
  XMin :: real
  YMin :: real
  ZMin :: real
  XMax :: real
  YMax :: real
  ZMax :: real

record R2Box =
  xmin :: real
  ymin :: real
  xmax :: real
  ymax :: real

definition XLength :: "R2Box \<Rightarrow> real" where
  "XLength b = xmax b - xmin b"

definition YLength :: "R2Box \<Rightarrow> real" where
  "YLength b = ymax b - ymin b"

text \<open>An \<^verbatim>\<open>R2Grid\<close>: cell \<open>(ix, iy)\<close> is entry \<open>ix + iy * XResolution\<close> of the values.\<close>

record R2Grid =
  XResolution :: int
  YResolution :: int
  WorldBox :: R2Box
  GridValues :: "real list"

text \<open>
  Modelled from the spec: the constructor \<^verbatim>\<open>R2Grid(xres, yres, bbox)\<close> of the library, which
  is not in the source file.  The grid covers the box with \<open>xres * yres\<close> cells, all 0.
\<close>

definition new_R2Grid :: "int \<Rightarrow> int \<Rightarrow> R2Box \<Rightarrow> R2Grid" where
  "new_R2Grid xres yres bbox =
     \<lparr>XResolution = xres, YResolution = yres, WorldBox = bbox,
      GridValues = replicate (nat (xres * yres)) 0\<rparr>"

text \<open>
  Modelled from the spec: \<^verbatim>\<open>R2Grid::Threshold(threshold, low, high)\<close> of the library, which is
  not in the source file.  "Threshold at 0.5 gives binary floor presence": a value up to the
  threshold becomes \<open>low\<close>, a value above it \<open>high\<close>.
\<close>

definition Threshold :: "real \<Rightarrow> real \<Rightarrow> real \<Rightarrow> R2Grid \<Rightarrow> R2Grid" where
  "Threshold threshold low high g =
     g\<lparr>GridValues := map (\<lambda>v. if v \<le> threshold then low else high) (GridValues g)\<rparr>"

text \<open>
  Modelled from the spec: \<^verbatim>\<open>R2Grid::Erode(grid_distance)\<close> of the library, which is not in
  the source file.  "Erosion removes cells near the boundary": a cell becomes 1 when no
  cell of the grid within the distance (in cells) holds 0, and 0 otherwise.
\<close>

definition cells_within :: "int \<Rightarrow> real \<Rightarrow> nat \<Rightarrow> nat \<Rightarrow> bool" where
  "cells_within xres grid_distance i j =
     (real_of_int ((int i mod xres - int j mod xres)\<^sup>2 + (int i div xres - int j div xres)\<^sup>2)
        \<le> grid_distance\<^sup>2)"

definition Erode :: "real \<Rightarrow> R2Grid \<Rightarrow> R2Grid" where
  "Erode grid_distance g =
     g\<lparr>GridValues :=
         map (\<lambda>i. if list_ex (\<lambda>j. cells_within (XResolution g) grid_distance i j \<and> GridValues g ! j = 0)
                          [0 ..< length (GridValues g)]
                  then 0 else 1)
             [0 ..< length (GridValues g)]\<rparr>"

text \<open>
  Modelled from the spec: \<^verbatim>\<open>R2Grid::Mask(mask)\<close> of the library, which is not in the source
  file.  "Final mask = floor-mask AND obstacle-free-mask (elementwise)".
\<close>

definition Mask :: "R2Grid \<Rightarrow> R2Grid \<Rightarrow> R2Grid" where
  "Mask g m =
     g\<lparr>GridValues := map2 (\<lambda>a b. if a \<noteq> 0 \<and> b \<noteq> 0 then 1 else 0) (GridValues g) (GridValues m)\<rparr>"

text \<open>
  What \<^verbatim>\<open>ComputeViewpointMask\<close> takes from the scene and the library for a room: the world
  bounding boxes of the room, of its floor node and of its ceiling node, the tolerance
  \<^verbatim>\<open>RN_EPSILON\<close>, and the grid that \<^verbatim>\<open>RasterizeIntoXYGrid\<close> leaves for a node under the room's
  transformation within a world box.  With them comes the quotient of two doubles as the
  machine computes it: it can differ from the exact quotient in the last place, which
  decides the truncation to an int where the exact quotient is a whole number.
\<close>

record mask_geometry =
  room_world_bbox :: "nat \<Rightarrow> R3Box"
  floor_world_bbox :: "nat \<Rightarrow> R3Box"
  ceiling_world_bbox :: "nat \<Rightarrow> R3Box"
  RN_EPSILON :: real
  RasterizeIntoXYGrid :: "nat \<Rightarrow> R3Box \<Rightarrow> R2Grid \<Rightarrow> nat \<Rightarrow> R2Grid"
  divide_RNScalar :: "real \<Rightarrow> real \<Rightarrow> real"

definition grid_sampling_factor :: real where
  "grid_sampling_factor = 2"

definition grid_sample_spacing_of :: "program_variables \<Rightarrow> real" where
  "grid_sample_spacing_of pv =
     (let s0 = min_distance_from_obstacle pv / grid_sampling_factor;
          s1 = (if s0 = 0 then 0.1 else s0)
      in if s1 > 0.1 then 0.1 else s1)"

text \<open>
  "Get/check grid extent and resolution in world coordinates": the resolutions and the
  grid box, or \<open>None\<close> where the function returns 0.  Both resolutions are computed from
  \<^verbatim>\<open>grid_bbox.XLength()\<close>.
\<close>

definition grid_extent_and_resolution ::
  "mask_geometry \<Rightarrow> program_variables \<Rightarrow> R3Box \<Rightarrow> (int \<times> int \<times> R2Box) option" where
  "grid_extent_and_resolution gm pv room_bbox =
     (let grid_sample_spacing = grid_sample_spacing_of pv;
          grid_bbox = \<lparr>xmin = XMin room_bbox, ymin = YMin room_bbox,
                       xmax = XMax room_bbox, ymax = YMax room_bbox\<rparr>;
          xres = c_int (divide_RNScalar gm (XLength grid_bbox) grid_sample_spacing);
          yres = c_int (divide_RNScalar gm (XLength grid_bbox) grid_sample_spacing)
      in if xres < 3 \<or> yres < 3 then None else Some (xres, yres, grid_bbox))"

text \<open>"Compute floor mask".\<close>

definition compute_floor_mask :: "mask_geometry \<Rightarrow> nat \<Rightarrow> nat \<Rightarrow> int \<Rightarrow> int \<Rightarrow> R2Box \<Rightarrow> R2Grid" where
  "compute_floor_mask gm room_node floor_node xres yres grid_bbox =
     Erode grid_sampling_factor
       (Threshold 0.5 0 1
          (RasterizeIntoXYGrid gm room_node (floor_world_bbox gm room_node)
             (new_R2Grid xres yres grid_bbox) floor_node))"

text \<open>"Initialize object mask" up to "Invert and erode object mask".\<close>

definition compute_object_mask ::
  "mask_geometry \<Rightarrow> R3Scene \<Rightarrow> nat \<Rightarrow> nat \<Rightarrow> nat \<Rightarrow> nat \<Rightarrow> int \<Rightarrow> int \<Rightarrow> R2Box \<Rightarrow> R2Grid" where
  "compute_object_mask gm scn room_node parent_node floor_node ceiling_node xres yres grid_bbox =
     (let room_bbox = room_world_bbox gm room_node;
          object_bbox = room_bbox
            \<lparr>ZMin := ZMax (floor_world_bbox gm room_node) + RN_EPSILON gm,
             ZMax := ZMin (ceiling_world_bbox gm room_node) - RN_EPSILON gm\<rparr>;
          of_room = filter (\<lambda>n. \<not> (n = floor_node \<or> n = ceiling_node))
                      (Children (Nodes scn ! room_node));
          of_no_room = filter (\<lambda>n. \<not> NChildren (Nodes scn ! n) > 0)
                         (Children (Nodes scn ! parent_node));
          rasterized = foldl (RasterizeIntoXYGrid gm room_node object_bbox)
                         (new_R2Grid xres yres grid_bbox) (of_room @ of_no_room)
      in Erode grid_sampling_factor (Threshold 0.5 1 0 rasterized))"

text \<open>
  \<^verbatim>\<open>ComputeViewpointMask(room_node, mask)\<close>: \<open>Some\<close> of the mask where the function returns 1,
  \<open>None\<close> where it returns 0.  A room without a parent is \<open>None\<close> as well: there the function
  reads the children of a null pointer and does not return a mask.
\<close>

definition ComputeViewpointMask ::
  "mask_geometry \<Rightarrow> program_variables \<Rightarrow> R3Scene \<Rightarrow> nat option \<Rightarrow> R2Grid option" where
  "ComputeViewpointMask gm pv scn room_opt =
     (case room_opt of
        None \<Rightarrow> None
      | Some room_node \<Rightarrow>
         (case Name (Nodes scn ! room_node) of
            None \<Rightarrow> None
          | Some room_name \<Rightarrow>
             if \<not> strncmp_zero room_name ''Room#'' 5 then None
             else if NChildren (Nodes scn ! room_node) < 3 then None
             else
               let wall_node = Children (Nodes scn ! room_node) ! 0;
                   floor_node = Children (Nodes scn ! room_node) ! 1;
                   ceiling_node = Children (Nodes scn ! room_node) ! 2
               in
                 (case Name (Nodes scn ! wall_node) of
                    None \<Rightarrow> None
                  | Some wall_name \<Rightarrow>
                     if \<not> strncmp_zero wall_name ''Walls#'' 6 then None
                     else
                       (case Name (Nodes scn ! floor_node) of
                          None \<Rightarrow> None
                        | Some floor_name \<Rightarrow>
                           if \<not> strncmp_zero floor_name ''Floors#'' 7 then None
                           else
                             (case Name (Nodes scn ! ceiling_node) of
                                None \<Rightarrow> None
                              | Some ceiling_name \<Rightarrow>
                                 if \<not> strncmp_zero ceiling_name ''Ceilings#'' 9 then None
                                 else
                                   (case grid_extent_and_resolution gm pv (room_world_bbox gm room_node) of
                                      None \<Rightarrow> None
                                    | Some res \<Rightarrow>
                                       (case Parent (Nodes scn ! room_node) of
                                          None \<Rightarrow> None
                                        | Some parent_node \<Rightarrow>
                                           Some (Mask
                                             (compute_floor_mask gm room_node floor_node
                                                (fst res) (fst (snd res)) (snd (snd res)))
                                             (compute_object_mask gm scn room_node parent_node
                                                floor_node ceiling_node
                                                (fst res) (fst (snd res)) (snd (snd res)))))))))))"

subsection \<open>Camera creation\<close>

text \<open>
  Modelled from the spec: the default constructor \<^verbatim>\<open>R3Camera()\<close> of the library, which is not
  in the source file.  "Scalar value (quality score, default 0)"; the other fields of a
  default camera are never read by the modelled functions.
\<close>

definition default_R3Camera :: R3Camera where
  "default_R3Camera =
     \<lparr>Origin = (0, 0, 0), Towards = (0, 0, 0), Up = (0, 0, 0),
      XFOV = 0, YFOV = 0, Near = 0, Far = 0, Value = 0\<rparr>"

text \<open>\<^verbatim>\<open>new Camera(best_camera, name)\<close>.\<close>

definition new_Camera :: "R3Camera \<Rightarrow> string option \<Rightarrow> Camera" where
  "new_Camera c nm = R3Camera.extend c (Camera.fields nm)"

text \<open>
  "Compute score for camera" and "Remember best camera", the same in the three creation
  functions.  A score that is not a finite number is \<open>None\<close>: it is minus infinity, which is
  below every \<open>min_score\<close>, or NaN, for which the last comparison is false.
\<close>

definition remember_best_camera :: "real \<Rightarrow> R3Camera \<Rightarrow> R3Camera \<Rightarrow> real option \<Rightarrow> R3Camera" where
  "remember_best_camera minimum best_camera camera score =
     (case score of
        None \<Rightarrow> best_camera
      | Some s \<Rightarrow>
          let scored = camera\<lparr>Value := s\<rparr> in
          if Value scored = 0 then best_camera
          else if Value scored < minimum then best_camera
          else if Value scored > Value best_camera then scored
          else best_camera)"

text \<open>The decimal digits that \<^verbatim>\<open>%d\<close> prints, and \<^verbatim>\<open>%s\<close> (glibc prints a null pointer so).\<close>

fun digits :: "nat \<Rightarrow> string" where
  "digits n = (if n < 10 then [''0123456789'' ! n]
               else digits (n div 10) @ [''0123456789'' ! (n mod 10)])"

definition percent_d :: "int \<Rightarrow> string" where
  "percent_d k = (if k < 0 then CHR ''-'' # digits (nat (- k)) else digits (nat k))"

definition percent_s :: "string option \<Rightarrow> string" where
  "percent_s str = (case str of None \<Rightarrow> ''(null)'' | Some s \<Rightarrow> s)"

definition newline :: char where
  "newline = CHR 0x0A"

text \<open>
  The number of view directions of the object and room loops,
  \<^verbatim>\<open>(int) (RN_TWO_PI / angle_sampling + 0.5)\<close>.  For \<open>angle_sampling = 0\<close> the quotient is
  infinite and its conversion is undefined; the model has no direction then.
\<close>

definition nangles_of :: "program_variables \<Rightarrow> nat" where
  "nangles_of pv =
     (if angle_sampling pv = 0 then 0 else nat (c_int (2 * pi / angle_sampling pv + 0.5)))"

text \<open>
  The candidate cameras come from geometry and random numbers of the library.  The
  creation functions take them as given: the camera built for direction \<open>j\<close> of object
  \<open>i\<close>; the cameras built along wall \<open>k\<close> of room \<open>j\<close> of floor \<open>i\<close>, in loop order; and, for a
  room, the world box under its ancestors, the random number of its eye height, and the
  cameras of direction \<open>j\<close> at the sampled positions that the viewpoint mask admits at
  height \<open>z\<close>, in loop order.
\<close>

record candidate_views =
  object_view :: "nat \<Rightarrow> nat \<Rightarrow> R3Camera"
  wall_views :: "nat \<Rightarrow> nat \<Rightarrow> nat \<Rightarrow> R3Camera list"
  room_ancestor_bbox :: "nat \<Rightarrow> R3Box"
  room_eye_random :: "nat \<Rightarrow> real"
  room_views :: "nat \<Rightarrow> nat \<Rightarrow> R2Grid \<Rightarrow> real \<Rightarrow> R3Camera list"

text \<open>The direction loop of \<^verbatim>\<open>CreateObjectCameras\<close> for one node.\<close>

fun best_object_camera ::
  "scene_query \<Rightarrow> real \<Rightarrow> nat \<Rightarrow> R3Camera \<times> coverage_statics \<Rightarrow> R3Camera list
     \<Rightarrow> R3Camera \<times> coverage_statics" where
  "best_object_camera sq minimum node acc [] = acc"
| "best_object_camera sq minimum node acc (camera # rest) =
     (let r = ObjectCoverageScore sq (snd acc) camera node
      in best_object_camera sq minimum node
           (remember_best_camera minimum (fst acc) camera (Some (fst r)), snd r) rest)"

definition object_cameras_step ::
  "program_variables \<Rightarrow> scene_query \<Rightarrow> candidate_views \<Rightarrow> R3Scene
     \<Rightarrow> Camera list \<times> coverage_statics \<Rightarrow> nat \<Rightarrow> Camera list \<times> coverage_statics" where
  "object_cameras_step pv sq cv scn acc i =
     (if \<not> IsObject (Nodes scn ! i) then acc
      else
        let r = best_object_camera sq (min_score pv) i (default_R3Camera, snd acc)
                  (map (object_view cv i) [0 ..< nangles_of pv])
        in if Value (fst r) > 0
           then (fst acc @ [new_Camera (fst r) (Name (Nodes scn ! i))], snd r)
           else (fst acc, snd r))"

text \<open>\<^verbatim>\<open>CreateObjectCameras\<close>: the cameras inserted, in order, from the given statics.\<close>

definition CreateObjectCameras ::
  "program_variables \<Rightarrow> scene_query \<Rightarrow> candidate_views \<Rightarrow> R3Scene \<Rightarrow> coverage_statics \<Rightarrow> Camera list" where
  "CreateObjectCameras pv sq cv scn st =
     fst (foldl (object_cameras_step pv sq cv scn) ([], st) [0 ..< NNodes scn])"

text \<open>The best camera of a list scored by \<^verbatim>\<open>SceneCoverageScore(camera, scene, room_node)\<close>.\<close>

definition best_scene_camera ::
  "program_variables \<Rightarrow> renderer \<Rightarrow> R3Scene \<Rightarrow> nat \<Rightarrow> R3Camera list \<Rightarrow> R3Camera" where
  "best_scene_camera pv rd scn room_node views =
     foldl (\<lambda>best_camera camera.
              remember_best_camera (min_score pv) best_camera camera
                (fst (SceneCoverageScore pv rd camera scn (Some room_node))))
           default_R3Camera views"

record P5DRoom =
  room_data :: "nat option"
  NWalls :: nat

record P5DFloor =
  Rooms :: "P5DRoom list"

record P5DProject =
  Floors :: "P5DFloor list"

text \<open>"Insert best camera" for wall \<open>k\<close>: \<^verbatim>\<open>sprintf(name, "%s_%d\n", room_node->Name(), k)\<close>.\<close>

definition wall_camera_name :: "R3Scene \<Rightarrow> nat \<Rightarrow> nat \<Rightarrow> string" where
  "wall_camera_name scn room_node k =
     percent_s (Name (Nodes scn ! room_node)) @ ''_'' @ percent_d (int k) @ [newline]"

definition wall_camera ::
  "program_variables \<Rightarrow> renderer \<Rightarrow> candidate_views \<Rightarrow> R3Scene \<Rightarrow> nat \<Rightarrow> nat \<Rightarrow> nat \<Rightarrow> nat \<Rightarrow> Camera list" where
  "wall_camera pv rd cv scn room_node i j k =
     (let best_camera = best_scene_camera pv rd scn room_node (wall_views cv i j k)
      in if Value best_camera > 0
         then [new_Camera best_camera (Some (wall_camera_name scn room_node k))]
         else [])"

text \<open>"For every room" of floor \<open>i\<close>: the checks of the room's scene node, then every wall.\<close>

definition room_wall_cameras ::
  "program_variables \<Rightarrow> renderer \<Rightarrow> candidate_views \<Rightarrow> R3Scene \<Rightarrow> nat \<Rightarrow> P5DFloor \<Rightarrow> nat \<Rightarrow> Camera list" where
  "room_wall_cameras pv rd cv scn i flr j =
     (case room_data (Rooms flr ! j) of
        None \<Rightarrow> []
      | Some room_node \<Rightarrow>
          if NChildren (Nodes scn ! room_node) < 3 then []
          else
            (case Name (Nodes scn ! (Children (Nodes scn ! room_node) ! 2)) of
               None \<Rightarrow> []
             | Some ceiling_name \<Rightarrow>
                 if \<not> strncmp_zero ceiling_name ''Ceilings#'' 9 then []
                 else concat (map (wall_camera pv rd cv scn room_node i j)
                                [0 ..< NWalls (Rooms flr ! j)])))"

text \<open>
  \<^verbatim>\<open>CreateWallCameras\<close>: the cameras inserted, in order.  \<open>project\<close> is the data of the root
  node (\<open>None\<close> is a null pointer).
\<close>

definition CreateWallCameras ::
  "program_variables \<Rightarrow> renderer \<Rightarrow> candidate_views \<Rightarrow> R3Scene \<Rightarrow> P5DProject option \<Rightarrow> Camera list" where
  "CreateWallCameras pv rd cv scn project =
     (case Name (Nodes scn ! Root scn) of
        None \<Rightarrow> []
      | Some root_name \<Rightarrow>
          if \<not> strncmp_zero root_name ''Project#'' 8 then []
          else
            (case project of
               None \<Rightarrow> []
             | Some prj \<Rightarrow>
                 concat (map (\<lambda>i. concat (map (room_wall_cameras pv rd cv scn i (Floors prj ! i))
                                               [0 ..< length (Rooms (Floors prj ! i))]))
                             [0 ..< length (Floors prj)])))"

text \<open>"Insert best camera for direction in room": \<^verbatim>\<open>sprintf(name, "%s_%d", room_node->Name(), j)\<close>.\<close>

definition room_camera_name :: "R3Scene \<Rightarrow> nat \<Rightarrow> nat \<Rightarrow> string" where
  "room_camera_name scn room_node j =
     percent_s (Name (Nodes scn ! room_node)) @ ''_'' @ percent_d (int j)"

definition room_direction_camera ::
  "program_variables \<Rightarrow> renderer \<Rightarrow> candidate_views \<Rightarrow> R3Scene \<Rightarrow> nat \<Rightarrow> R2Grid \<Rightarrow> real \<Rightarrow> nat \<Rightarrow> Camera list" where
  "room_direction_camera pv rd cv scn room_node viewpoint_mask z j =
     (let best_camera = best_scene_camera pv rd scn room_node (room_views cv room_node j viewpoint_mask z)
      in if Value best_camera > 0
         then [new_Camera best_camera (Some (room_camera_name scn room_node j))]
         else [])"

text \<open>The body of the loop of \<^verbatim>\<open>CreateRoomCameras\<close> over the nodes of the scene.\<close>

definition room_cameras ::
  "program_variables \<Rightarrow> renderer \<Rightarrow> mask_geometry \<Rightarrow> candidate_views \<Rightarrow> R3Scene \<Rightarrow> nat \<Rightarrow> Camera list" where
  "room_cameras pv rd gm cv scn i =
     (case Name (Nodes scn ! i) of
        None \<Rightarrow> []
      | Some room_name \<Rightarrow>
          if \<not> strncmp_zero room_name ''Room#'' 5 then []
          else
            let room_bbox = room_ancestor_bbox cv i;
                z = ZMin room_bbox + eye_height pv
                    + 2.0 * (room_eye_random cv i - 0.5) * eye_height_radius pv
            in if z > ZMax room_bbox then []
               else
                 (case ComputeViewpointMask gm pv scn (Some i) of
                    None \<Rightarrow> []
                  | Some viewpoint_mask \<Rightarrow>
                      concat (map (room_direction_camera pv rd cv scn i viewpoint_mask z)
                                [0 ..< nangles_of pv])))"

definition CreateRoomCameras ::
  "program_variables \<Rightarrow> renderer \<Rightarrow> mask_geometry \<Rightarrow> candidate_views \<Rightarrow> R3Scene \<Rightarrow> Camera list" where
  "CreateRoomCameras pv rd gm cv scn =
     concat (map (room_cameras pv rd gm cv scn) [0 ..< NNodes scn])"

subsection \<open>Camera interpolation\<close>

text \<open>
  What \<^verbatim>\<open>InterpolateCameraTrajectory\<close> takes from the library: the angle between two
  vectors, the start parameter, the end parameter and the point at a parameter of the
  \<^verbatim>\<open>R3CatmullRomSpline\<close> built from keypoints and their parameters, and the text that
  \<^verbatim>\<open>%f\<close> prints.  With them comes the sum of two doubles as the machine computes it: the
  rounded sums of \<^verbatim>\<open>u += trajectory_step\<close> decide how often the resampling loop runs, and
  whether it ends.
\<close>

record spline_library =
  R3InteriorAngle :: "R3Point \<Rightarrow> R3Point \<Rightarrow> real"
  StartParameter :: "R3Point list \<Rightarrow> real list \<Rightarrow> real"
  EndParameter :: "R3Point list \<Rightarrow> real list \<Rightarrow> real"
  PointPosition :: "R3Point list \<Rightarrow> real list \<Rightarrow> real \<Rightarrow> R3Point"
  percent_f :: "real \<Rightarrow> string"
  add_RNScalar :: "real \<Rightarrow> real \<Rightarrow> real"

text \<open>The parameters of the keypoints after the first, given the previous one.\<close>

fun later_parameters :: "spline_library \<Rightarrow> real \<Rightarrow> Camera \<Rightarrow> Camera list \<Rightarrow> real list" where
  "later_parameters sl previous_parameter previous [] = []"
| "later_parameters sl previous_parameter previous (camera # rest) =
     (let parameter =
            add_RNScalar sl
              (add_RNScalar sl previous_parameter (R3Distance (Origin camera) (Origin previous)))
              (R3InteriorAngle sl (Towards camera) (Towards previous))
      in parameter # later_parameters sl parameter camera rest)"

definition keypoint_parameters :: "spline_library \<Rightarrow> Camera list \<Rightarrow> real list" where
  "keypoint_parameters sl cams =
     (case cams of [] \<Rightarrow> [] | first # rest \<Rightarrow> 0 # later_parameters sl 0 first rest)"

text \<open>
  The values of \<open>u\<close> in \<^verbatim>\<open>for (u = start; u <= end; u += trajectory_step)\<close> from \<open>u\<close> on, with
  the machine's sum \<open>rounded_sum\<close>; \<open>None\<close> when the loop does not end.
\<close>

partial_function (option) resample_parameters ::
  "(real \<Rightarrow> real \<Rightarrow> real) \<Rightarrow> real \<Rightarrow> real \<Rightarrow> real \<Rightarrow> real list option" where
  "resample_parameters rounded_sum trajectory_step end_parameter u =
     (if u \<le> end_parameter
      then Option.bind
             (resample_parameters rounded_sum trajectory_step end_parameter
                (rounded_sum u trajectory_step))
             (\<lambda>later. Some (u # later))
      else Some [])"

text \<open>The ways in which the function does not return.\<close>

datatype failure = ReadsHeadOfEmptyArray | LoopsForever

text \<open>The camera that the resampling loop inserts for parameter \<open>u\<close>.\<close>

definition resampled_camera ::
  "spline_library \<Rightarrow> Camera list \<Rightarrow> real list \<Rightarrow> real \<Rightarrow> Camera" where
  "resampled_camera sl cams parameters u =
     \<lparr>Origin = PointPosition sl (map Origin cams) parameters u,
      Towards = PointPosition sl (map Towards cams) parameters u,
      Up = PointPosition sl (map Up cams) parameters u,
      XFOV = XFOV (hd cams), YFOV = YFOV (hd cams),
      Near = Near (hd cams), Far = Far (hd cams), Value = 0,
      name = Some (''T'' @ percent_f sl u)\<rparr>"

text \<open>
  \<^verbatim>\<open>InterpolateCameraTrajectory(trajectory_step)\<close> on the global camera list: the value
  returned and the new camera list.  The function has no test of the number of cameras.
  On an empty list it reads the head of the empty array; where the sums of the resampling
  loop never pass the end parameter it does not return.
\<close>

definition InterpolateCameraTrajectory ::
  "spline_library \<Rightarrow> real \<Rightarrow> Camera list \<Rightarrow> failure + int \<times> Camera list" where
  "InterpolateCameraTrajectory sl trajectory_step cams =
     (if cams = [] then Inl ReadsHeadOfEmptyArray
      else
        let parameters = keypoint_parameters sl cams;
            start_parameter = StartParameter sl (map Origin cams) parameters;
            end_parameter = EndParameter sl (map Origin cams) parameters
        in case resample_parameters (add_RNScalar sl) trajectory_step end_parameter start_parameter of
             None \<Rightarrow> Inl LoopsForever
           | Some us \<Rightarrow> Inr (1, map (resampled_camera sl cams parameters) us))"

subsection \<open>The scores in the words of the specification\<close>

text \<open>
  The number of pixels of an image that show node \<open>i\<close>: the pixels that are not unknown and
  whose value rounds to \<open>i\<close>.
\<close>

definition visible_pixel_count :: "renderer \<Rightarrow> real list \<Rightarrow> nat \<Rightarrow> int" where
  "visible_pixel_count rd img i =
     int (length (filter (\<lambda>v. v \<noteq> R2_GRID_UNKNOWN_VALUE rd \<and> c_int (v + 0.5) = int i) img))"

text \<open>
  "A node qualifies if it is an object and its pixel count exceeds
  \<open>min_visible_fraction * image_pixel_count\<close>."
\<close>

definition qualifying_nodes :: "program_variables \<Rightarrow> renderer \<Rightarrow> R3Scene \<Rightarrow> real list \<Rightarrow> nat list" where
  "qualifying_nodes pv rd scn img =
     filter (\<lambda>i. IsObject (Nodes scn ! i)
                 \<and> real_of_int (visible_pixel_count rd img i)
                     > min_visible_fraction pv * real_of_int (width pv * height pv))
       [0 ..< NNodes scn]"

text \<open>\<open>k\<close>, the number of qualifying nodes, and \<open>p\<close>, the sum of their pixel counts.\<close>

definition qualifying_count :: "program_variables \<Rightarrow> renderer \<Rightarrow> R3Scene \<Rightarrow> real list \<Rightarrow> int" where
  "qualifying_count pv rd scn img = int (length (qualifying_nodes pv rd scn img))"

definition qualifying_pixels :: "program_variables \<Rightarrow> renderer \<Rightarrow> R3Scene \<Rightarrow> real list \<Rightarrow> int" where
  "qualifying_pixels pv rd scn img =
     sum_list (map (visible_pixel_count rd img) (qualifying_nodes pv rd scn img))"

text \<open>
  "Method 0: score = \<open>k * p / image_pixel_count\<close> if \<open>k > min_visible_objects\<close>, else 0", on
  a given image.
\<close>

definition method0_formula :: "program_variables \<Rightarrow> renderer \<Rightarrow> R3Scene \<Rightarrow> real list \<Rightarrow> real" where
  "method0_formula pv rd scn img =
     (if real_of_int (qualifying_count pv rd scn img) > min_visible_objects pv
      then real_of_int (qualifying_count pv rd scn img * qualifying_pixels pv rd scn img)
           / real_of_int (width pv * height pv)
      else 0)"

text \<open>
  "Method 1: score = sum over qualifying nodes of \<open>ln (pixel_count / threshold)\<close> if
  \<open>k > min_visible_objects\<close>, else 0", with the quotient a real number, on a given image
  and for a given threshold.
\<close>

definition method1_formula :: "program_variables \<Rightarrow> renderer \<Rightarrow> R3Scene \<Rightarrow> real list \<Rightarrow> real \<Rightarrow> real" where
  "method1_formula pv rd scn img threshold =
     (if real_of_int (qualifying_count pv rd scn img) > min_visible_objects pv
      then sum_list (map (\<lambda>i. ln (real_of_int (visible_pixel_count rd img i) / threshold))
                         (qualifying_nodes pv rd scn img))
      else 0)"

text \<open>
  The static variables of \<^verbatim>\<open>ObjectCoverageScore\<close> after a sequence of calls, each with its
  camera and node, from the start of the program.
\<close>

definition statics_after :: "scene_query \<Rightarrow> (R3Camera \<times> nat) list \<Rightarrow> coverage_statics" where
  "statics_after sq calls =
     foldl (\<lambda>st call. snd (ObjectCoverageScore sq st (fst call) (snd call))) initial_statics calls"

text \<open>
  What holds of the static variables between calls: for a remembered node without
  surface no point is kept.
\<close>

definition statics_consistent :: "scene_query \<Rightarrow> coverage_statics \<Rightarrow> bool" where
  "statics_consistent sq st =
     (case last_node st of None \<Rightarrow> True
      | Some n \<Rightarrow> \<not> RNIsZero sq (total_area_of sq n) \<or> points st = [])"

subsection \<open>Example inputs\<close>

text \<open>
  A project with two rooms.  The first room holds a chair; the second a table and a lamp.
\<close>

definition example_scene :: R3Scene where
  "example_scene =
     \<lparr>Nodes =
        [\<lparr>Name = Some ''Project#demo'', Children = [1, 2], Parent = None\<rparr>,
         \<lparr>Name = Some ''Room#0_0'', Children = [3, 4, 5, 6], Parent = Some 0\<rparr>,
         \<lparr>Name = Some ''Room#0_1'', Children = [7, 8, 9, 10, 11], Parent = Some 0\<rparr>,
         \<lparr>Name = Some ''Walls#0_0'', Children = [], Parent = Some 1\<rparr>,
         \<lparr>Name = Some ''Floors#0_0'', Children = [], Parent = Some 1\<rparr>,
         \<lparr>Name = Some ''Ceilings#0_0'', Children = [], Parent = Some 1\<rparr>,
         \<lparr>Name = Some ''Object#chair'', Children = [], Parent = Some 1\<rparr>,
         \<lparr>Name = Some ''Walls#0_1'', Children = [], Parent = Some 2\<rparr>,
         \<lparr>Name = Some ''Floors#0_1'', Children = [], Parent = Some 2\<rparr>,
         \<lparr>Name = Some ''Ceilings#0_1'', Children = [], Parent = Some 2\<rparr>,
         \<lparr>Name = Some ''Object#table'', Children = [], Parent = Some 2\<rparr>,
         \<lparr>Name = Some ''Object#lamp'', Children = [], Parent = Some 2\<rparr>],
      Root = 0\<rparr>"

text \<open>
  Images of 20 by 10 pixels with the program's \<open>min_visible_fraction\<close> of 0.01: an object
  must cover more than 2 pixels.  With images of 5 by 2 pixels the minimum pixel count per
  object truncates to 0.
\<close>

definition example_variables :: program_variables where
  "example_variables =
     \<lparr>width = 20, height = 10, scene_scoring_method = 0, min_visible_objects = 1,
      min_visible_fraction = 0.01, min_distance_from_obstacle = 0.2, min_score = 0,
      eye_height = 1.55, eye_height_radius = 0.05, angle_sampling = pi / 2\<rparr>"

definition small_variables :: program_variables where
  "small_variables = example_variables\<lparr>width := 5, height := 2\<rparr>"

definition example_camera :: R3Camera where
  "example_camera =
     \<lparr>Origin = (1, 1, 1.5), Towards = (1, 0, 0), Up = (0, 0, 1),
      XFOV = 0.5, YFOV = 0.4, Near = 0.01, Far = 100, Value = 0\<rparr>"

text \<open>
  A renderer for a camera that looks from the first room through a door into the second:
  rendered from the root of the scene the image shows the table and the lamp on three
  pixels each; rendered from any other node it shows nothing.  The small renderer does
  the same on 5 by 2 pixels.
\<close>

definition example_pixels :: "real list" where
  "example_pixels = replicate 3 10 @ replicate 3 11 @ replicate 194 (- 12345678)"

definition blank_pixels :: "real list" where
  "blank_pixels = replicate 200 (- 12345678)"

definition example_renderer :: renderer where
  "example_renderer =
     \<lparr>R2_GRID_UNKNOWN_VALUE = - 12345678,
      RenderImage = (\<lambda>camera root_node. if root_node = 0 then example_pixels else blank_pixels)\<rparr>"

definition small_pixels :: "real list" where
  "small_pixels = replicate 3 10 @ replicate 3 11 @ replicate 4 (- 12345678)"

definition small_renderer :: renderer where
  "small_renderer =
     \<lparr>R2_GRID_UNKNOWN_VALUE = - 12345678,
      RenderImage = (\<lambda>camera root_node.
         if root_node = 0 then small_pixels else replicate 10 (- 12345678))\<rparr>"

text \<open>
  A large image: a project whose one room holds 90 objects (nodes 5 to 94), images of 5000
  by 5000 pixels (the options \<^verbatim>\<open>-width 5000 -height 5000\<close>) with the program's
  \<open>min_visible_objects\<close> of 3 and \<open>min_visible_fraction\<close> of 0.01, and a renderer whose image
  shows each of the objects on 277777 pixels and no node on the 70 pixels that remain.
\<close>

definition big_scene :: R3Scene where
  "big_scene =
     \<lparr>Nodes =
        [\<lparr>Name = Some ''Project#big'', Children = [1], Parent = None\<rparr>,
         \<lparr>Name = Some ''Room#0_0'', Children = [2 ..< 95], Parent = Some 0\<rparr>,
         \<lparr>Name = Some ''Walls#0_0'', Children = [], Parent = Some 1\<rparr>,
         \<lparr>Name = Some ''Floors#0_0'', Children = [], Parent = Some 1\<rparr>,
         \<lparr>Name = Some ''Ceilings#0_0'', Children = [], Parent = Some 1\<rparr>]
        @ replicate 90 \<lparr>Name = Some ''Object#box'', Children = [], Parent = Some 1\<rparr>,
      Root = 0\<rparr>"

definition big_variables :: program_variables where
  "big_variables = example_variables\<lparr>width := 5000, height := 5000, min_visible_objects := 3\<rparr>"

definition big_pixels :: "real list" where
  "big_pixels = concat (map (\<lambda>i. replicate 277777 (real i)) [5 ..< 95]) @ replicate 70 (- 12345678)"

definition big_renderer :: renderer where
  "big_renderer =
     \<lparr>R2_GRID_UNKNOWN_VALUE = - 12345678, RenderImage = (\<lambda>camera root_node. big_pixels)\<rparr>"

text \<open>
  Candidate views that offer the example camera everywhere, and a project with one floor
  whose one room is the second room of the scene, with one wall.
\<close>

definition example_views :: candidate_views where
  "example_views =
     \<lparr>object_view = (\<lambda>i j. example_camera),
      wall_views = (\<lambda>i j k. [example_camera]),
      room_ancestor_bbox = (\<lambda>i. \<lparr>XMin = 0, YMin = 0, ZMin = 0, XMax = 0.35, YMax = 0.35, ZMax = 3\<rparr>),
      room_eye_random = (\<lambda>i. 0.5),
      room_views = (\<lambda>i j viewpoint_mask z. [example_camera])\<rparr>"

definition example_project :: P5DProject where
  "example_project = \<lparr>Floors = [\<lparr>Rooms = [\<lparr>room_data = Some 2, NWalls = 1\<rparr>]\<rparr>]\<rparr>"

text \<open>
  A small room of 0.35 by 0.35: the floor node covers the whole grid and the table covers
  its first cell.  The quotient is the exact one: the quotients taken in the examples, 3.5
  here and 20.2 below, are far enough from a whole number for rounding not to change
  their truncation.
\<close>

definition example_geometry :: mask_geometry where
  "example_geometry =
     \<lparr>room_world_bbox = (\<lambda>room_node. \<lparr>XMin = 0, YMin = 0, ZMin = 0, XMax = 0.35, YMax = 0.35, ZMax = 3\<rparr>),
      floor_world_bbox = (\<lambda>room_node. \<lparr>XMin = 0, YMin = 0, ZMin = 0, XMax = 0.35, YMax = 0.35, ZMax = 0\<rparr>),
      ceiling_world_bbox = (\<lambda>room_node. \<lparr>XMin = 0, YMin = 0, ZMin = 3, XMax = 0.35, YMax = 0.35, ZMax = 3\<rparr>),
      RN_EPSILON = 0.000001,
      RasterizeIntoXYGrid = (\<lambda>room_node world_bbox g node.
         if node = 4 \<or> node = 8 then g\<lparr>GridValues := map (\<lambda>v. 1) (GridValues g)\<rparr>
         else if node = 10 then g\<lparr>GridValues := (GridValues g)[0 := 1]\<rparr>
         else g),
      divide_RNScalar = (\<lambda>a b. a / b)\<rparr>"

text \<open>The same with a room that is 2.02 long and 0.12 wide.\<close>

definition thin_room_geometry :: mask_geometry where
  "thin_room_geometry =
     example_geometry
       \<lparr>room_world_bbox := (\<lambda>room_node. \<lparr>XMin = 0, YMin = 0, ZMin = 0, XMax = 2.02, YMax = 0.12, ZMax = 3\<rparr>)\<rparr>"

text \<open>
  A scene query in which the chair has no surface, every other node has one triangle of
  area 1 beside a shape of area 255, and every ray hits the table where it ends.
\<close>

definition example_query :: scene_query where
  "example_query =
     \<lparr>ScaleFactor = (\<lambda>node. 1),
      Elements = (\<lambda>node. if node = 6 then []
                           else [[R3OtherShape 255, R3TriangleArray 1 [\<lparr>TriangleArea = 1\<rparr>]]]),
      Intersects = (\<lambda>origin point max_t. Some (Some 10, max_t)),
      RNIsZero = (\<lambda>x. \<bar>x\<bar> \<le> 0.000001),
      RNIsEqual = (\<lambda>a b tolerance. \<bar>a - b\<bar> \<le> tolerance),
      RNRandomScalar = (\<lambda>n. 0.5),
      RandomPoint = (\<lambda>triangle n. (real n, 0, 0))\<rparr>"

text \<open>
  A spline library whose curve starts at the first parameter, ends at the last and stays
  at the first keypoint.  Its sums are exact.
\<close>

definition example_spline :: spline_library where
  "example_spline =
     \<lparr>R3InteriorAngle = (\<lambda>v w. 0),
      StartParameter = (\<lambda>keypoints parameters. hd parameters),
      EndParameter = (\<lambda>keypoints parameters. last parameters),
      PointPosition = (\<lambda>keypoints parameters u. hd keypoints),
      percent_f = (\<lambda>u. if u = 0 then ''0.000000'' else ''?''),
      add_RNScalar = (\<lambda>a b. a + b)\<rparr>"

declare digits.simps [simp del]

section \<open>Properties\<close>

subsection \<open>Properties of the arithmetic\<close>

lemma int_wrap_id: "INT_MIN \<le> x \<Longrightarrow> x \<le> INT_MAX \<Longrightarrow> int_wrap x = x"
  by (simp add: int_wrap_def INT_MIN_def INT_MAX_def)

lemma int_wrap_zero: "int_wrap 0 = 0"
  by (simp add: int_wrap_def)

lemma abs_int_wrap_le: "\<bar>int_wrap x\<bar> \<le> \<bar>x\<bar>"
proof -
  have "- 2147483648 \<le> int_wrap x" "int_wrap x < 2147483648"
    unfolding int_wrap_def by simp_all
  moreover have "- 2147483648 \<le> x \<Longrightarrow> x < 2147483648 \<Longrightarrow> int_wrap x = x"
    unfolding int_wrap_def by simp
  ultimately show ?thesis by (cases "- 2147483648 \<le> x \<and> x < 2147483648") auto
qed

lemma c_int_eq_0_iff: "c_int y = 0 \<longleftrightarrow> \<bar>y\<bar> < 1"
proof (cases "0 \<le> y")
  case True
  then show ?thesis by (simp add: c_int_def floor_eq_iff)
next
  case False
  then show ?thesis by (simp add: c_int_def ceiling_eq_iff)
qed

subsection \<open>The early returns of the scene coverage score\<close>

text \<open>
  Claim C9.  If the image has no pixels (\<open>width * height = 0\<close>), or the minimum pixel count
  per object truncates to zero (\<open>\<lfloor>min_visible_fraction * width * height\<rfloor> = 0\<close>), then
  \<^verbatim>\<open>SceneCoverageScore\<close> returns 0 for every camera and every \<open>parent_node\<close>, and
  \<^verbatim>\<open>RenderImage\<close> is not called.  The hypothesis is about the exact product; the theorem
  also covers a product that wraps around in the \<^verbatim>\<open>int\<close> multiplication.
\<close>

theorem SceneCoverageScore_zero_without_rendering:
  assumes "width pv * height pv = 0 \<or>
           \<lfloor>min_visible_fraction pv * real_of_int (width pv * height pv)\<rfloor> = 0"
  shows "SceneCoverageScore pv rd camera scn parent_node = (Some 0, [])"
proof (cases "int_wrap (width pv * height pv) = 0")
  case True
  then show ?thesis by (simp add: SceneCoverageScore_def)
next
  case False
  then have "width pv * height pv \<noteq> 0"
    using int_wrap_zero by metis
  with assms have "\<lfloor>min_visible_fraction pv * real_of_int (width pv * height pv)\<rfloor> = 0"
    by simp
  then have small: "\<bar>min_visible_fraction pv * real_of_int (width pv * height pv)\<bar> < 1"
    by (simp add: floor_eq_iff)
  have "\<bar>min_visible_fraction pv * real_of_int (int_wrap (width pv * height pv))\<bar>
       \<le> \<bar>min_visible_fraction pv * real_of_int (width pv * height pv)\<bar>"
    using abs_int_wrap_le [of "width pv * height pv"]
    by (simp only: abs_mult) (rule mult_left_mono, linarith, simp)
  with small have "c_int (min_visible_fraction pv * real_of_int (int_wrap (width pv * height pv))) = 0"
    by (simp only: c_int_eq_0_iff)
  then show ?thesis by (simp add: SceneCoverageScore_def Let_def)
qed

theorem SceneCoverageScore_zero_without_rendering_witness:
  "\<lfloor>min_visible_fraction small_variables
      * real_of_int (width small_variables * height small_variables)\<rfloor> = 0
   \<and> SceneCoverageScore small_variables small_renderer example_camera example_scene (Some 1)
       = (Some 0, [])"
proof -
  have h: "\<lfloor>min_visible_fraction small_variables
      * real_of_int (width small_variables * height small_variables)\<rfloor> = 0"
    by (simp add: small_variables_def example_variables_def)
  from h SceneCoverageScore_zero_without_rendering [OF disjI2, OF h]
  show ?thesis by simp
qed

subsection \<open>The room argument of the scene coverage score\<close>

lemma SceneCoverageScore_ignores_parent_node:
  "SceneCoverageScore pv rd camera scn parent_node = SceneCoverageScore pv rd camera scn None"
  by (simp add: SceneCoverageScore_def)

lemma example_node_pixel_counts:
  "count_node_pixels (- 12345678) 12 example_pixels = [0, 0, 0, 0, 0, 0, 0, 0, 0, 0, 3, 3]"
  by code_simp

lemma example_method0_loop:
  "method0_loop example_scene [0, 0, 0, 0, 0, 0, 0, 0, 0, 0, 3, 3] 2 = (2, 6)"
  by code_simp

lemma example_variables_simps:
  "width example_variables = 20" "height example_variables = 10"
  "scene_scoring_method example_variables = 0" "min_visible_objects example_variables = 1"
  "min_visible_fraction example_variables = 0.01" "min_score example_variables = 0"
  by (simp_all add: example_variables_def)

lemma small_variables_simps:
  "width small_variables = 5" "height small_variables = 2"
  "scene_scoring_method small_variables = 0" "min_visible_objects small_variables = 1"
  "min_visible_fraction small_variables = 0.01"
  by (simp_all add: small_variables_def example_variables_def)

lemma example_scene_simps:
  "NNodes example_scene = 12" "Root example_scene = 0"
  by (simp_all add: example_scene_def NNodes_def)

lemma example_renderer_simps:
  "R2_GRID_UNKNOWN_VALUE example_renderer = - 12345678"
  "RenderImage example_renderer camera 0 = example_pixels"
  "RenderImage example_renderer camera (Suc 0) = blank_pixels"
  by (simp_all add: example_renderer_def)

lemma small_renderer_simps:
  "R2_GRID_UNKNOWN_VALUE small_renderer = - 12345678"
  "RenderImage small_renderer camera 0 = small_pixels"
  by (simp_all add: small_renderer_def)

lemma example_nothing_visible:
  "count_node_pixels (- 12345678) 12 blank_pixels = [0, 0, 0, 0, 0, 0, 0, 0, 0, 0, 0, 0]"
  by code_simp

text \<open>
  Claim C1 says that with a room node given the image is rendered restricted to the room's
  subtree, so that only nodes of the room count.  The function renders from the root of
  the scene whatever \<open>parent_node\<close> is.  In the example the score asked for the first room
  (node 1) is 3/50, from the table and the lamp of the second room (nodes 10 and 11), and the
  one call of \<^verbatim>\<open>RenderImage\<close> has the root (node 0) as its root node; rendered from node 1
  the image shows no node.
\<close>

theorem SceneCoverageScore_renders_whole_scene:
  "SceneCoverageScore example_variables example_renderer example_camera example_scene (Some 1)
   = (Some (3 / 50), [(example_camera, 0)])
   \<and> Root example_scene = 0
   \<and> count_node_pixels (R2_GRID_UNKNOWN_VALUE example_renderer) (NNodes example_scene)
        (RenderImage example_renderer example_camera 1)
      = [0, 0, 0, 0, 0, 0, 0, 0, 0, 0, 0, 0]"
  by (simp add: SceneCoverageScore_def Let_def example_variables_simps example_scene_simps
        example_renderer_simps int_wrap_def c_int_def example_node_pixel_counts
        example_method0_loop example_nothing_visible)

subsection \<open>The best camera of a unit\<close>

lemma remember_best_camera_keeps:
  assumes "0 \<le> Value best" "0 < Value best \<longrightarrow> m \<le> Value best"
  shows "0 \<le> Value (remember_best_camera m best camera score)
         \<and> (0 < Value (remember_best_camera m best camera score)
              \<longrightarrow> m \<le> Value (remember_best_camera m best camera score))"
  using assms by (cases score) (auto simp: remember_best_camera_def Let_def)

lemma Value_default_R3Camera: "Value default_R3Camera = 0"
  by (simp add: default_R3Camera_def)

lemma Value_new_Camera: "Value (new_Camera c nm) = Value c"
  by (simp add: new_Camera_def R3Camera.defs)


lemma foldl_remember_best_keeps:
  assumes "0 \<le> Value best" "0 < Value best \<longrightarrow> m \<le> Value best"
  shows "0 \<le> Value (foldl (\<lambda>b c. remember_best_camera m b c (score c)) best views)
         \<and> (0 < Value (foldl (\<lambda>b c. remember_best_camera m b c (score c)) best views)
              \<longrightarrow> m \<le> Value (foldl (\<lambda>b c. remember_best_camera m b c (score c)) best views))"
  using assms
proof (induction views arbitrary: best)
  case Nil
  then show ?case by simp
next
  case (Cons c views)
  from remember_best_camera_keeps [OF Cons.prems, of c "score c"]
  show ?case by (simp add: Cons.IH)
qed

lemma best_scene_camera_value:
  "0 < Value (best_scene_camera pv rd scn room_node views)
   \<Longrightarrow> min_score pv \<le> Value (best_scene_camera pv rd scn room_node views)"
  using foldl_remember_best_keeps [of default_R3Camera "min_score pv"
          "\<lambda>c. fst (SceneCoverageScore pv rd c scn (Some room_node))" views]
  by (simp add: best_scene_camera_def Value_default_R3Camera)

lemma best_object_camera_keeps:
  assumes "0 \<le> Value (fst acc)" "0 < Value (fst acc) \<longrightarrow> m \<le> Value (fst acc)"
  shows "0 \<le> Value (fst (best_object_camera sq m node acc views))
         \<and> (0 < Value (fst (best_object_camera sq m node acc views))
              \<longrightarrow> m \<le> Value (fst (best_object_camera sq m node acc views)))"
  using assms
proof (induction views arbitrary: acc)
  case Nil
  then show ?case by simp
next
  case (Cons c views)
  let ?r = "ObjectCoverageScore sq (snd acc) c node"
  let ?acc = "(remember_best_camera m (fst acc) c (Some (fst ?r)), snd ?r)"
  from remember_best_camera_keeps [OF Cons.prems, of c "Some (fst ?r)"]
  have "0 \<le> Value (fst ?acc)" "0 < Value (fst ?acc) \<longrightarrow> m \<le> Value (fst ?acc)"
    by simp_all
  from Cons.IH [OF this] show ?case by (simp add: Let_def)
qed

lemma wall_camera_value:
  "c \<in> set (wall_camera pv rd cv scn room_node i j k) \<Longrightarrow> 0 < Value c \<and> min_score pv \<le> Value c"
  by (auto simp: wall_camera_def Let_def Value_new_Camera best_scene_camera_value split: if_splits)

lemma room_direction_camera_value:
  "c \<in> set (room_direction_camera pv rd cv scn room_node vm z j) \<Longrightarrow> 0 < Value c \<and> min_score pv \<le> Value c"
  by (auto simp: room_direction_camera_def Let_def Value_new_Camera best_scene_camera_value split: if_splits)

lemma CreateWallCameras_value:
  "c \<in> set (CreateWallCameras pv rd cv scn project) \<Longrightarrow> 0 < Value c \<and> min_score pv \<le> Value c"
  by (auto simp: CreateWallCameras_def room_wall_cameras_def dest: wall_camera_value
           split: option.splits if_splits)

lemma CreateRoomCameras_value:
  "c \<in> set (CreateRoomCameras pv rd gm cv scn) \<Longrightarrow> 0 < Value c \<and> min_score pv \<le> Value c"
  by (auto simp: CreateRoomCameras_def room_cameras_def Let_def dest: room_direction_camera_value
           split: option.splits if_splits)

lemma object_cameras_step_value:
  assumes "\<forall>c \<in> set (fst acc). 0 < Value c \<and> min_score pv \<le> Value c"
  shows "\<forall>c \<in> set (fst (object_cameras_step pv sq cv scn acc i)). 0 < Value c \<and> min_score pv \<le> Value c"
proof -
  let ?r = "best_object_camera sq (min_score pv) i (default_R3Camera, snd acc)
                  (map (object_view cv i) [0 ..< nangles_of pv])"
  have "0 < Value (fst ?r) \<longrightarrow> min_score pv \<le> Value (fst ?r)"
    using best_object_camera_keeps [of "(default_R3Camera, snd acc)" "min_score pv" sq i]
    by (simp add: Value_default_R3Camera)
  with assms show ?thesis
    by (auto simp: object_cameras_step_def Let_def Value_new_Camera)
qed

lemma foldl_object_cameras_step_value:
  assumes "\<forall>c \<in> set (fst acc). 0 < Value c \<and> min_score pv \<le> Value c"
  shows "\<forall>c \<in> set (fst (foldl (object_cameras_step pv sq cv scn) acc ns)). 0 < Value c \<and> min_score pv \<le> Value c"
  using assms
proof (induction ns arbitrary: acc)
  case Nil
  then show ?case by simp
next
  case (Cons n ns)
  from Cons.IH [OF object_cameras_step_value [OF Cons.prems]] show ?case by simp
qed

lemma CreateObjectCameras_value:
  "c \<in> set (CreateObjectCameras pv sq cv scn st) \<Longrightarrow> 0 < Value c \<and> min_score pv \<le> Value c"
  using foldl_object_cameras_step_value [of "([], st)" pv sq cv scn "[0 ..< NNodes scn]"]
  by (simp add: CreateObjectCameras_def)

text \<open>
  Claim C6.  Every camera that one of the three creation functions inserts has a score
  that is positive and at least \<open>min_score\<close>, for every \<open>min_score\<close>.
\<close>

theorem emitted_cameras_reach_min_score:
  "\<forall>c \<in> set (CreateObjectCameras pv sq cv scn st)
        \<union> set (CreateWallCameras pv rd cv scn project)
        \<union> set (CreateRoomCameras pv rd gm cv scn).
     0 < Value c \<and> min_score pv \<le> Value c"
  using CreateObjectCameras_value CreateWallCameras_value CreateRoomCameras_value by blast

subsection \<open>The example, evaluated\<close>

lemma example_score:
  "SceneCoverageScore example_variables example_renderer example_camera example_scene parent_node
   = (Some (3 / 50), [(example_camera, 0)])"
  by (simp add: SceneCoverageScore_def Let_def example_variables_simps example_scene_simps
        example_renderer_simps int_wrap_def c_int_def example_node_pixel_counts
        example_method0_loop)

lemma example_best_scene_camera:
  "best_scene_camera example_variables example_renderer example_scene room_node [example_camera]
   = example_camera\<lparr>Value := 3 / 50\<rparr>"
  by (simp add: best_scene_camera_def example_score remember_best_camera_def Let_def
        example_variables_simps Value_default_R3Camera)

lemma digits_less_10: "n < 10 \<Longrightarrow> digits n = [''0123456789'' ! n]"
  by (simp add: digits.simps)

lemma example_scene_names:
  "Name (Nodes example_scene ! Root example_scene) = Some ''Project#demo''"
  "Name (Nodes example_scene ! 2) = Some ''Room#0_1''"
  "NChildren (Nodes example_scene ! 2) = 5"
  "Name (Nodes example_scene ! (Children (Nodes example_scene ! 2) ! 2)) = Some ''Ceilings#0_1''"
  by (simp_all add: example_scene_def NChildren_def)

lemma example_CreateWallCameras:
  "CreateWallCameras example_variables example_renderer example_views example_scene (Some example_project)
   = [new_Camera (example_camera\<lparr>Value := 3 / 50\<rparr>) (Some (''Room#0_1_0'' @ [newline]))]"
  by (simp add: CreateWallCameras_def room_wall_cameras_def wall_camera_def Let_def
        example_project_def example_scene_names example_views_def strncmp_zero_def
        example_best_scene_camera wall_camera_name_def percent_s_def percent_d_def digits_less_10)

lemma last_digits: "last (digits n) = ''0123456789'' ! (n mod 10)"
  by (subst digits.simps) simp

lemma digits_not_Nil: "digits n \<noteq> []"
  by (subst digits.simps) simp

lemma digit_not_newline: "m < 10 \<Longrightarrow> ''0123456789'' ! m \<noteq> newline"
proof -
  assume "m < 10"
  then have "''0123456789'' ! m \<in> set ''0123456789''"
    by (intro nth_mem) simp
  then show ?thesis by (auto simp: newline_def)
qed

lemma room_camera_name_no_newline: "last (room_camera_name scn room_node j) \<noteq> newline"
  using digit_not_newline [of "j mod 10"]
  by (simp add: room_camera_name_def percent_d_def digits_not_Nil last_digits)

lemma wall_camera_name_newline: "last (wall_camera_name scn room_node k) = newline"
  by (simp add: wall_camera_name_def)

lemma example_floor_mask:
  "compute_floor_mask example_geometry 2 8 3 3 \<lparr>xmin = 0, ymin = 0, xmax = 7 / 20, ymax = 7 / 20\<rparr>
   = \<lparr>XResolution = 3, YResolution = 3, WorldBox = \<lparr>xmin = 0, ymin = 0, xmax = 7 / 20, ymax = 7 / 20\<rparr>,
       GridValues = [1, 1, 1, 1, 1, 1, 1, 1, 1]\<rparr>"
  by code_simp

lemma example_object_mask:
  "compute_object_mask example_geometry example_scene 2 0 8 9 3 3 \<lparr>xmin = 0, ymin = 0, xmax = 7 / 20, ymax = 7 / 20\<rparr>
   = \<lparr>XResolution = 3, YResolution = 3, WorldBox = \<lparr>xmin = 0, ymin = 0, xmax = 7 / 20, ymax = 7 / 20\<rparr>,
       GridValues = [0, 0, 0, 0, 0, 1, 0, 1, 1]\<rparr>"
  by code_simp

lemma example_grid:
  "grid_extent_and_resolution example_geometry example_variables (room_world_bbox example_geometry room_node)
   = Some (3, 3, \<lparr>xmin = 0, ymin = 0, xmax = 7 / 20, ymax = 7 / 20\<rparr>)"
  by (simp add: grid_extent_and_resolution_def grid_sample_spacing_of_def grid_sampling_factor_def
       example_variables_def example_variables_def example_geometry_def XLength_def c_int_def Let_def)

lemma example_room_names:
  "Name (Nodes example_scene ! 2) = Some ''Room#0_1''"
  "NChildren (Nodes example_scene ! 2) = 5"
  "Children (Nodes example_scene ! 2) ! 0 = 7"
  "Children (Nodes example_scene ! 2) ! Suc 0 = 8"
  "Children (Nodes example_scene ! 2) ! 2 = 9"
  "Name (Nodes example_scene ! 7) = Some ''Walls#0_1''"
  "Name (Nodes example_scene ! 8) = Some ''Floors#0_1''"
  "Name (Nodes example_scene ! 9) = Some ''Ceilings#0_1''"
  "Parent (Nodes example_scene ! 2) = Some 0"
  by (simp_all add: example_scene_def NChildren_def)

lemma example_mask:
  "ComputeViewpointMask example_geometry example_variables example_scene (Some 2)
   = Some \<lparr>XResolution = 3, YResolution = 3,
            WorldBox = \<lparr>xmin = 0, ymin = 0, xmax = 7 / 20, ymax = 7 / 20\<rparr>,
            GridValues = [0, 0, 0, 0, 0, 1, 0, 1, 1]\<rparr>"
  by (simp add: ComputeViewpointMask_def example_room_names strncmp_zero_def example_grid
        example_floor_mask example_object_mask Mask_def)

subsection \<open>Camera labels\<close>







subsection \<open>The viewpoint mask\<close>

lemma Erode_frame:
  "XResolution (Erode r g) = XResolution g" "YResolution (Erode r g) = YResolution g"
  "WorldBox (Erode r g) = WorldBox g"
  by (simp_all add: Erode_def)

lemma Threshold_frame:
  "XResolution (Threshold t lo hi g) = XResolution g" "YResolution (Threshold t lo hi g) = YResolution g"
  "WorldBox (Threshold t lo hi g) = WorldBox g"
  by (simp_all add: Threshold_def)

lemma Mask_frame:
  "XResolution (Mask g m) = XResolution g" "YResolution (Mask g m) = YResolution g"
  "WorldBox (Mask g m) = WorldBox g"
  by (simp_all add: Mask_def)

lemma Erode_binary: "v \<in> set (GridValues (Erode r g)) \<Longrightarrow> v = 0 \<or> v = 1"
  by (auto simp: Erode_def)

lemma compute_floor_mask_binary:
  "v \<in> set (GridValues (compute_floor_mask gm room_node floor_node xres yres grid_bbox)) \<Longrightarrow> v = 0 \<or> v = 1"
  unfolding compute_floor_mask_def by (rule Erode_binary)

lemma Mask_nth:
  assumes "i < length (GridValues (Mask g m))"
  shows "i < length (GridValues g)"
    and "GridValues (Mask g m) ! i = (if GridValues g ! i \<noteq> 0 \<and> GridValues m ! i \<noteq> 0 then 1 else 0)"
  using assms by (simp_all add: Mask_def)

lemma ComputeViewpointMask_Some:
  assumes "ComputeViewpointMask gm pv scn (Some room_node) = Some vm"
  shows "\<exists>res parent_node.
           grid_extent_and_resolution gm pv (room_world_bbox gm room_node) = Some res
         \<and> Parent (Nodes scn ! room_node) = Some parent_node
         \<and> vm = Mask (compute_floor_mask gm room_node (Children (Nodes scn ! room_node) ! 1)
                        (fst res) (fst (snd res)) (snd (snd res)))
                     (compute_object_mask gm scn room_node parent_node
                        (Children (Nodes scn ! room_node) ! 1) (Children (Nodes scn ! room_node) ! 2)
                        (fst res) (fst (snd res)) (snd (snd res)))"
  using assms
  by (auto simp: ComputeViewpointMask_def Let_def split: option.splits if_splits)

text \<open>
  Claim C7.  Every cell of a mask that \<^verbatim>\<open>ComputeViewpointMask\<close> built holds 0 or 1, and a
  cell that holds 1 holds 1 in the eroded floor mask as well.  The grid operations are
  the ones modelled from the spec.
\<close>

theorem viewpoint_mask_binary_within_floor_mask:
  assumes "ComputeViewpointMask gm pv scn (Some room_node) = Some vm"
      and "grid_extent_and_resolution gm pv (room_world_bbox gm room_node) = Some (xres, yres, grid_bbox)"
  shows "\<forall>i < length (GridValues vm).
           (GridValues vm ! i = 0 \<or> GridValues vm ! i = 1)
         \<and> (GridValues vm ! i = 1 \<longrightarrow>
              i < length (GridValues (compute_floor_mask gm room_node
                                        (Children (Nodes scn ! room_node) ! 1) xres yres grid_bbox))
            \<and> GridValues (compute_floor_mask gm room_node
                             (Children (Nodes scn ! room_node) ! 1) xres yres grid_bbox) ! i = 1)"
proof (intro allI impI)
  fix i
  assume i: "i < length (GridValues vm)"
  let ?floor = "compute_floor_mask gm room_node (Children (Nodes scn ! room_node) ! 1) xres yres grid_bbox"
  from ComputeViewpointMask_Some [OF assms(1)] assms(2)
  obtain object_mask where vm: "vm = Mask ?floor object_mask"
    by auto
  from i vm have len: "i < length (GridValues ?floor)"
    and val: "GridValues vm ! i = (if GridValues ?floor ! i \<noteq> 0 \<and> GridValues object_mask ! i \<noteq> 0 then 1 else 0)"
    using Mask_nth [of i ?floor object_mask] by simp_all
  from len have "GridValues ?floor ! i \<in> set (GridValues ?floor)"
    by simp
  then have "GridValues ?floor ! i = 0 \<or> GridValues ?floor ! i = 1"
    by (rule compute_floor_mask_binary)
  with val len show "(GridValues vm ! i = 0 \<or> GridValues vm ! i = 1)
         \<and> (GridValues vm ! i = 1 \<longrightarrow> i < length (GridValues ?floor) \<and> GridValues ?floor ! i = 1)"
    by auto
qed

theorem viewpoint_mask_binary_within_floor_mask_witness:
  "ComputeViewpointMask example_geometry example_variables example_scene (Some 2)
     = Some \<lparr>XResolution = 3, YResolution = 3,
              WorldBox = \<lparr>xmin = 0, ymin = 0, xmax = 7 / 20, ymax = 7 / 20\<rparr>,
              GridValues = [0, 0, 0, 0, 0, 1, 0, 1, 1]\<rparr>
   \<and> grid_extent_and_resolution example_geometry example_variables (room_world_bbox example_geometry 2)
     = Some (3, 3, \<lparr>xmin = 0, ymin = 0, xmax = 7 / 20, ymax = 7 / 20\<rparr>)
   \<and> GridValues (compute_floor_mask example_geometry 2 (Children (Nodes example_scene ! 2) ! 1) 3 3
                   \<lparr>xmin = 0, ymin = 0, xmax = 7 / 20, ymax = 7 / 20\<rparr>) ! 5 = 1"
  using viewpoint_mask_binary_within_floor_mask [OF example_mask example_grid, THEN spec, of 5]
        example_mask example_grid
  by simp

subsection \<open>The resolution of the mask grid\<close>

lemma thin_grid:
  "grid_extent_and_resolution thin_room_geometry example_variables (room_world_bbox thin_room_geometry room_node)
   = Some (20, 20, \<lparr>xmin = 0, ymin = 0, xmax = 101 / 50, ymax = 3 / 25\<rparr>)"
  by (simp add: grid_extent_and_resolution_def grid_sample_spacing_of_def grid_sampling_factor_def
       example_variables_def thin_room_geometry_def example_geometry_def XLength_def c_int_def Let_def)

lemma example_spacing: "grid_sample_spacing_of example_variables = 1 / 10"
  by (simp add: grid_sample_spacing_of_def grid_sampling_factor_def example_variables_def Let_def)

lemma thin_floor_raster:
  "RasterizeIntoXYGrid thin_room_geometry room_node world_bbox g 8
   = g\<lparr>GridValues := map (\<lambda>v. 1) (GridValues g)\<rparr>"
  by (simp add: thin_room_geometry_def example_geometry_def)

text \<open>
  Claim C3 says that the resolution of each axis is that axis's extent divided by the
  spacing, and that a room is rejected below 3 by 3.  The function computes both
  resolutions from the extent in \<open>x\<close>.  For a room of 2.02 by 0.12 with spacing 0.1 the mask
  is built on a grid of 20 by 20 cells over that box; the extent in \<open>y\<close> divided by the
  spacing is 1.
\<close>

theorem y_resolution_from_x_extent:
  "map_option (\<lambda>vm. (XResolution vm, YResolution vm, WorldBox vm))
     (ComputeViewpointMask thin_room_geometry example_variables example_scene (Some 2))
   = Some (20, 20, \<lparr>xmin = 0, ymin = 0, xmax = 2.02, ymax = 0.12\<rparr>)
   \<and> c_int (YLength \<lparr>xmin = 0, ymin = 0, xmax = 2.02, ymax = 0.12\<rparr>
              / grid_sample_spacing_of example_variables) = 1"
  by (simp add: ComputeViewpointMask_def example_room_names strncmp_zero_def thin_grid example_spacing
        Mask_frame compute_floor_mask_def Erode_frame Threshold_frame thin_floor_raster
        new_R2Grid_def YLength_def c_int_def)

subsection \<open>More of the example, evaluated\<close>

lemma example_nangles: "nangles_of example_variables = 4"
  by (simp add: nangles_of_def example_variables_def c_int_def)

lemma upt_4: "[0 ..< 4] = [0, 1, 2, 3::nat]"
  by (simp add: upt_rec)

lemma example_eye_simps:
  "eye_height example_variables = 1.55" "eye_height_radius example_variables = 0.05"
  by (simp_all add: example_variables_def)

lemma example_views_simps:
  "room_views example_views i j vm z = [example_camera]"
  "wall_views example_views i j k = [example_camera]"
  "object_view example_views i j = example_camera"
  "room_eye_random example_views i = 0.5"
  "ZMin (room_ancestor_bbox example_views i) = 0"
  "ZMax (room_ancestor_bbox example_views i) = 3"
  by (simp_all add: example_views_def)

lemma example_room_cameras:
  "room_cameras example_variables example_renderer example_geometry example_views example_scene 2
   = [new_Camera (example_camera\<lparr>Value := 3 / 50\<rparr>) (Some ''Room#0_1_0''),
      new_Camera (example_camera\<lparr>Value := 3 / 50\<rparr>) (Some ''Room#0_1_1''),
      new_Camera (example_camera\<lparr>Value := 3 / 50\<rparr>) (Some ''Room#0_1_2''),
      new_Camera (example_camera\<lparr>Value := 3 / 50\<rparr>) (Some ''Room#0_1_3'')]"
  by (simp add: room_cameras_def example_room_names strncmp_zero_def Let_def example_mask
        example_nangles upt_4 room_direction_camera_def example_best_scene_camera
        room_camera_name_def percent_s_def percent_d_def digits_less_10
        example_eye_simps example_views_simps)

lemma room_cameras_subset:
  "i < NNodes scn \<Longrightarrow> set (room_cameras pv rd gm cv scn i) \<subseteq> set (CreateRoomCameras pv rd gm cv scn)"
  by (auto simp: CreateRoomCameras_def)

lemma example_room_camera_emitted:
  "new_Camera (example_camera\<lparr>Value := 3 / 50\<rparr>) (Some ''Room#0_1_0'')
   \<in> set (CreateRoomCameras example_variables example_renderer example_geometry example_views example_scene)"
  using room_cameras_subset [of 2 example_scene example_variables example_renderer example_geometry example_views]
  by (simp add: example_room_cameras example_scene_simps)

subsection \<open>The labels of wall and room cameras\<close>



subsection \<open>Witnesses on the example\<close>

lemma example_wall_camera_emitted:
  "new_Camera (example_camera\<lparr>Value := 3 / 50\<rparr>) (Some (''Room#0_1_0'' @ [newline]))
   \<in> set (CreateWallCameras example_variables example_renderer example_views example_scene
            (Some example_project))"
  by (simp add: example_CreateWallCameras)


theorem emitted_cameras_reach_min_score_witness:
  "new_Camera (example_camera\<lparr>Value := 3 / 50\<rparr>) (Some (''Room#0_1_0'' @ [newline]))
     \<in> set (CreateWallCameras example_variables example_renderer example_views example_scene
              (Some example_project))
   \<and> new_Camera (example_camera\<lparr>Value := 3 / 50\<rparr>) (Some ''Room#0_1_0'')
     \<in> set (CreateRoomCameras example_variables example_renderer example_geometry example_views
              example_scene)
   \<and> 0 < Value (new_Camera (example_camera\<lparr>Value := 3 / 50\<rparr>) (Some (''Room#0_1_0'' @ [newline])))
   \<and> min_score example_variables
        \<le> Value (new_Camera (example_camera\<lparr>Value := 3 / 50\<rparr>) (Some (''Room#0_1_0'' @ [newline])))
   \<and> 0 < Value (new_Camera (example_camera\<lparr>Value := 3 / 50\<rparr>) (Some ''Room#0_1_0''))
   \<and> min_score example_variables
        \<le> Value (new_Camera (example_camera\<lparr>Value := 3 / 50\<rparr>) (Some ''Room#0_1_0''))"
proof -
  note all = emitted_cameras_reach_min_score
          [of example_variables example_query example_views example_scene initial_statics
              example_renderer "Some example_project" example_geometry]
  from example_wall_camera_emitted
  have "new_Camera (example_camera\<lparr>Value := 3 / 50\<rparr>) (Some (''Room#0_1_0'' @ [newline]))
     \<in> set (CreateObjectCameras example_variables example_query example_views example_scene initial_statics)
        \<union> set (CreateWallCameras example_variables example_renderer example_views example_scene
              (Some example_project))
        \<union> set (CreateRoomCameras example_variables example_renderer example_geometry example_views
              example_scene)"
    by simp
  from all [THEN bspec, OF this]
  have w: "0 < Value (new_Camera (example_camera\<lparr>Value := 3 / 50\<rparr>) (Some (''Room#0_1_0'' @ [newline])))
   \<and> min_score example_variables
        \<le> Value (new_Camera (example_camera\<lparr>Value := 3 / 50\<rparr>) (Some (''Room#0_1_0'' @ [newline])))" .
  from example_room_camera_emitted
  have "new_Camera (example_camera\<lparr>Value := 3 / 50\<rparr>) (Some ''Room#0_1_0'')
     \<in> set (CreateObjectCameras example_variables example_query example_views example_scene initial_statics)
        \<union> set (CreateWallCameras example_variables example_renderer example_views example_scene
              (Some example_project))
        \<union> set (CreateRoomCameras example_variables example_renderer example_geometry example_views
              example_scene)"
    by simp
  from all [THEN bspec, OF this]
  have r: "0 < Value (new_Camera (example_camera\<lparr>Value := 3 / 50\<rparr>) (Some ''Room#0_1_0''))
   \<and> min_score example_variables
        \<le> Value (new_Camera (example_camera\<lparr>Value := 3 / 50\<rparr>) (Some ''Room#0_1_0''))" .
  from w r example_wall_camera_emitted example_room_camera_emitted show ?thesis
    by (intro conjI) (erule conjunct1 conjunct2 | assumption)+
qed

subsection \<open>The object coverage score and its static variables\<close>

lemma ObjectCoverageScore_range:
  "0 \<le> fst (ObjectCoverageScore sq st camera node) \<and> fst (ObjectCoverageScore sq st camera node) \<le> 1"
proof -
  have "real (length (filter P xs)) \<le> real (length xs)" for P and xs :: "R3Point list"
    by simp
  then have "xs \<noteq> [] \<Longrightarrow> real (length (filter P xs)) / real (length xs) \<le> 1"
    for P and xs :: "R3Point list"
    by (simp add: divide_le_eq_1)
  then show ?thesis
    by (simp add: ObjectCoverageScore_def Let_def)
qed

lemma statics_consistent_initial: "statics_consistent sq initial_statics"
  by (simp add: statics_consistent_def initial_statics_def)

lemma statics_consistent_step:
  "statics_consistent sq st \<Longrightarrow> statics_consistent sq (snd (ObjectCoverageScore sq st camera node))"
  by (auto simp: statics_consistent_def ObjectCoverageScore_def Let_def split: option.splits)

lemma statics_consistent_after: "statics_consistent sq (statics_after sq calls)"
proof -
  have "statics_consistent sq st \<Longrightarrow>
        statics_consistent sq
          (foldl (\<lambda>st call. snd (ObjectCoverageScore sq st (fst call) (snd call))) st calls)" for st
    by (induction calls arbitrary: st) (simp_all add: statics_consistent_step)
  then show ?thesis
    by (simp add: statics_after_def statics_consistent_initial)
qed

lemma ObjectCoverageScore_zero_area:
  assumes "statics_consistent sq st" and "RNIsZero sq (total_area_of sq node)"
  shows "fst (ObjectCoverageScore sq st camera node) = 0"
  using assms
  by (auto simp: statics_consistent_def ObjectCoverageScore_def Let_def split: option.splits)

subsection \<open>The counting loops of the scene coverage score\<close>

lemma length_log_pixel: "length (log_pixel u n cs v) = length cs"
  by (simp add: log_pixel_def Let_def)

lemma nth_log_pixel:
  assumes "length cs = n" and "i < n"
  shows "log_pixel u n cs v ! i
         = cs ! i + (if v \<noteq> u \<and> c_int (v + 0.5) = int i then 1 else 0)"
proof (cases "v = u \<or> c_int (v + 0.5) < 0 \<or> c_int (v + 0.5) \<ge> int n")
  case True
  with assms show ?thesis by (auto simp: log_pixel_def Let_def)
next
  case False
  then have "nat (c_int (v + 0.5)) < n" "int (nat (c_int (v + 0.5))) = c_int (v + 0.5)"
    by auto
  with False assms show ?thesis
    by (auto simp: log_pixel_def Let_def nth_list_update)
qed

lemma nth_foldl_log_pixel:
  assumes "length cs = n" and "i < n"
  shows "foldl (log_pixel u n) cs img ! i
         = cs ! i + int (length (filter (\<lambda>v. v \<noteq> u \<and> c_int (v + 0.5) = int i) img))"
  using assms
proof (induction img arbitrary: cs)
  case Nil
  then show ?case by simp
next
  case (Cons v img)
  have "length (log_pixel u n cs v) = n"
    using Cons.prems(1) by (simp add: length_log_pixel)
  from Cons.IH [OF this Cons.prems(2)] nth_log_pixel [OF Cons.prems, of u v]
  show ?case by simp
qed

lemma nth_count_node_pixels:
  "i < NNodes scn \<Longrightarrow>
   count_node_pixels (R2_GRID_UNKNOWN_VALUE rd) (NNodes scn) img ! i = visible_pixel_count rd img i"
  using nth_foldl_log_pixel [of "replicate (NNodes scn) 0" "NNodes scn" i "R2_GRID_UNKNOWN_VALUE rd" img]
  by (simp add: count_node_pixels_def visible_pixel_count_def)

lemma visible_pixel_count_nonneg: "0 \<le> visible_pixel_count rd img i"
  by (simp add: visible_pixel_count_def)

lemma foldl_method0_step:
  "foldl (method0_step scn cs m) acc ns
   = (fst acc + int (length (filter (counts_towards_score scn cs m) ns)),
      snd acc + sum_list (map (\<lambda>i. cs ! i) (filter (counts_towards_score scn cs m) ns)))"
  by (induction ns arbitrary: acc) (simp_all add: method0_step_def)

text \<open>The test of the loops agrees with the specification's test when the threshold is not 0.\<close>

lemma exceeds_threshold_iff:
  assumes "c_int x \<noteq> 0" and "0 \<le> c"
  shows "\<not> c \<le> c_int x \<longleftrightarrow> x < real_of_int c"
proof (cases "0 \<le> x")
  case True
  then show ?thesis by (simp add: c_int_def floor_less_iff not_le)
next
  case False
  with assms(1) have "\<lceil>x\<rceil> \<le> - 1"
    by (simp add: c_int_def) (smt (verit) ceiling_le_zero)
  with False assms(2) show ?thesis
    by (simp add: c_int_def)
qed

lemma counts_towards_score_iff:
  assumes "i < NNodes scn"
      and "c_int (min_visible_fraction pv * real_of_int (width pv * height pv)) \<noteq> 0"
  shows "counts_towards_score scn (count_node_pixels (R2_GRID_UNKNOWN_VALUE rd) (NNodes scn) img)
           (c_int (min_visible_fraction pv * real_of_int (width pv * height pv))) i
         \<longleftrightarrow> IsObject (Nodes scn ! i)
             \<and> real_of_int (visible_pixel_count rd img i)
                 > min_visible_fraction pv * real_of_int (width pv * height pv)"
  using exceeds_threshold_iff [OF assms(2) visible_pixel_count_nonneg [of rd img i]]
  by (simp add: counts_towards_score_def nth_count_node_pixels [OF assms(1)] del: of_int_mult)

lemma filter_counts_towards_score:
  assumes "c_int (min_visible_fraction pv * real_of_int (width pv * height pv)) \<noteq> 0"
  shows "filter (counts_towards_score scn (count_node_pixels (R2_GRID_UNKNOWN_VALUE rd) (NNodes scn) img)
                   (c_int (min_visible_fraction pv * real_of_int (width pv * height pv))))
           [0 ..< NNodes scn]
         = qualifying_nodes pv rd scn img"
  unfolding qualifying_nodes_def
  by (rule filter_cong [OF refl]) (simp add: counts_towards_score_iff [OF _ assms] del: of_int_mult)

lemma qualifying_nodes_less: "i \<in> set (qualifying_nodes pv rd scn img) \<Longrightarrow> i < NNodes scn"
  by (simp add: qualifying_nodes_def)

lemma method0_loop_eq:
  assumes "c_int (min_visible_fraction pv * real_of_int (width pv * height pv)) \<noteq> 0"
  shows "method0_loop scn (count_node_pixels (R2_GRID_UNKNOWN_VALUE rd) (NNodes scn) img)
           (c_int (min_visible_fraction pv * real_of_int (width pv * height pv)))
         = (qualifying_count pv rd scn img, qualifying_pixels pv rd scn img)"
proof -
  have eq: "map (\<lambda>i. count_node_pixels (R2_GRID_UNKNOWN_VALUE rd) (NNodes scn) img ! i)
            (qualifying_nodes pv rd scn img)
        = map (visible_pixel_count rd img) (qualifying_nodes pv rd scn img)"
    by (rule map_cong [OF refl]) (simp add: nth_count_node_pixels qualifying_nodes_less)
  show ?thesis
    unfolding method0_loop_def foldl_method0_step filter_counts_towards_score [OF assms] eq
      qualifying_count_def qualifying_pixels_def
    by simp
qed

lemma qualifying_count_nonneg: "0 \<le> qualifying_count pv rd scn img"
  by (simp add: qualifying_count_def)

lemma qualifying_pixels_nonneg: "0 \<le> qualifying_pixels pv rd scn img"
  unfolding qualifying_pixels_def
  by (rule sum_list_nonneg) (auto simp: visible_pixel_count_nonneg)

subsection \<open>Scoring method 0 and the sign of the score\<close>

lemma c_int_zero: "c_int 0 = 0"
  by (simp add: c_int_def)

lemma method0_score:
  assumes scoring: "scene_scoring_method pv = 0"
      and range: "INT_MIN \<le> width pv * height pv" "width pv * height pv \<le> INT_MAX"
      and threshold: "c_int (min_visible_fraction pv * real_of_int (width pv * height pv)) \<noteq> 0"
      and product: "qualifying_count pv rd scn (RenderImage rd camera (Root scn))
                    * qualifying_pixels pv rd scn (RenderImage rd camera (Root scn)) \<le> INT_MAX"
  shows "fst (SceneCoverageScore pv rd camera scn parent_node)
         = Some (method0_formula pv rd scn (RenderImage rd camera (Root scn)))"
proof -
  let ?img = "RenderImage rd camera (Root scn)"
  let ?k = "qualifying_count pv rd scn ?img" and ?p = "qualifying_pixels pv rd scn ?img"
  have wrap: "int_wrap (width pv * height pv) = width pv * height pv"
    using range by (rule int_wrap_id)
  have nonzero: "width pv * height pv \<noteq> 0"
    using threshold c_int_zero by fastforce
  have "0 \<le> ?k * ?p"
    using qualifying_count_nonneg qualifying_pixels_nonneg by simp
  then have "INT_MIN \<le> ?k * ?p"
    by (simp add: INT_MIN_def)
  then have wrap2: "int_wrap (?k * ?p) = ?k * ?p"
    using product by (rule int_wrap_id)
  show ?thesis
    unfolding SceneCoverageScore_def wrap Let_def
    using nonzero threshold scoring
    by (simp add: method0_loop_eq [OF threshold] wrap2 method0_formula_def del: of_int_mult)
qed

lemma foldl_method1_step:
  "foldl (method1_step scn cs m) acc ns
   = (fst acc + int (length (filter (counts_towards_score scn cs m) ns)),
      foldl add_scalar (snd acc)
        (map (\<lambda>i. c_log (c_div (cs ! i) m)) (filter (counts_towards_score scn cs m) ns)))"
  by (induction ns arbitrary: acc) (simp_all add: method1_step_def)

lemma c_div_ge_1: "0 < m \<Longrightarrow> m < c \<Longrightarrow> 1 \<le> c_div c m"
  using pos_imp_zdiv_pos_iff [of m c] by (simp add: c_div_def)

lemma c_log_nonneg: "1 \<le> n \<Longrightarrow> \<exists>s. c_log n = Some s \<and> 0 \<le> s"
  by (simp add: c_log_def)

lemma foldl_add_scalar_nonneg:
  assumes "\<forall>x \<in> set xs. \<exists>s. x = Some s \<and> 0 \<le> s" and "0 \<le> a"
  shows "\<exists>s. foldl add_scalar (Some a) xs = Some s \<and> 0 \<le> s"
  using assms
proof (induction xs arbitrary: a)
  case Nil
  then show ?case by simp
next
  case (Cons x xs)
  then obtain b where b: "x = Some b" "0 \<le> b" by auto
  with Cons.prems have "0 \<le> a + b" by simp
  from Cons.IH [OF _ this] Cons.prems(1) b show ?case
    by (simp add: add_scalar_def)
qed

lemma method1_loop_nonneg:
  assumes "0 < m"
  shows "\<exists>s. snd (method1_loop scn cs m) = Some s \<and> 0 \<le> s"
proof -
  have "\<forall>x \<in> set (map (\<lambda>i. c_log (c_div (cs ! i) m))
                       (filter (counts_towards_score scn cs m) [0 ..< NNodes scn])).
          \<exists>s. x = Some s \<and> 0 \<le> s"
    using assms by (auto simp: counts_towards_score_def intro!: c_log_nonneg c_div_ge_1)
  from foldl_add_scalar_nonneg [OF this, of 0] show ?thesis
    by (simp add: method1_loop_def foldl_method1_step)
qed

lemma c_int_pos: "0 \<le> x \<Longrightarrow> c_int x \<noteq> 0 \<Longrightarrow> 0 < c_int x"
proof -
  assume x: "0 \<le> x" and nz: "c_int x \<noteq> 0"
  from x have eq: "c_int x = \<lfloor>x\<rfloor>" by (simp add: c_int_def)
  from x have "0 \<le> \<lfloor>x\<rfloor>" by simp
  with nz eq show ?thesis by linarith
qed

lemma scene_score_nonneg:
  assumes size: "0 \<le> width pv" "0 \<le> height pv" "width pv * height pv \<le> INT_MAX"
      and fraction: "0 \<le> min_visible_fraction pv"
      and product: "scene_scoring_method pv \<noteq> 0
                    \<or> qualifying_count pv rd scn (RenderImage rd camera (Root scn))
                      * qualifying_pixels pv rd scn (RenderImage rd camera (Root scn)) \<le> INT_MAX"
  shows "\<exists>s. fst (SceneCoverageScore pv rd camera scn parent_node) = Some s \<and> 0 \<le> s"
proof -
  let ?n = "width pv * height pv"
  let ?m = "c_int (min_visible_fraction pv * real_of_int ?n)"
  let ?img = "RenderImage rd camera (Root scn)"
  have n: "0 \<le> ?n" using size by simp
  then have "INT_MIN \<le> ?n" by (simp add: INT_MIN_def)
  then have wrap: "int_wrap ?n = ?n" using size(3) by (rule int_wrap_id)
  consider (empty) "?n = 0" | (zero) "?n \<noteq> 0" "?m = 0"
    | (m0) "?n \<noteq> 0" "?m \<noteq> 0" "scene_scoring_method pv = 0"
    | (m1) "?n \<noteq> 0" "?m \<noteq> 0" "scene_scoring_method pv = 1"
    | (other) "?n \<noteq> 0" "?m \<noteq> 0" "scene_scoring_method pv \<noteq> 0" "scene_scoring_method pv \<noteq> 1"
    by blast
  then show ?thesis
  proof cases
    case empty
    then show ?thesis by (simp add: SceneCoverageScore_def wrap del: of_int_mult)
  next
    case zero
    then show ?thesis by (simp add: SceneCoverageScore_def wrap Let_def del: of_int_mult)
  next
    case m0
    with product have "qualifying_count pv rd scn ?img * qualifying_pixels pv rd scn ?img \<le> INT_MAX"
      by simp
    from method0_score [OF m0(3) \<open>INT_MIN \<le> ?n\<close> size(3) m0(2) this, of parent_node]
    have "fst (SceneCoverageScore pv rd camera scn parent_node) = Some (method0_formula pv rd scn ?img)" .
    moreover have "0 \<le> method0_formula pv rd scn ?img"
      using n qualifying_count_nonneg [of pv rd scn ?img] qualifying_pixels_nonneg [of pv rd scn ?img]
      by (simp add: method0_formula_def del: of_int_mult)
    ultimately show ?thesis by simp
  next
    case m1
    have "0 \<le> min_visible_fraction pv * real_of_int ?n"
      using fraction n by (intro mult_nonneg_nonneg) (simp_all del: of_int_mult)
    from c_int_pos [OF this m1(2)] have "0 < ?m" .
    from method1_loop_nonneg [OF this]
    obtain s where "snd (method1_loop scn (count_node_pixels (R2_GRID_UNKNOWN_VALUE rd) (NNodes scn) ?img) ?m) = Some s"
      "0 \<le> s" by blast
    with m1 show ?thesis
      by (simp add: SceneCoverageScore_def wrap Let_def del: of_int_mult)
  next
    case other
    then show ?thesis by (simp add: SceneCoverageScore_def wrap Let_def del: of_int_mult)
  qed
qed

lemma example_image:
  "RenderImage example_renderer example_camera (Root example_scene) = example_pixels"
  by (simp add: example_scene_simps example_renderer_simps)

lemma small_image:
  "RenderImage small_renderer example_camera (Root example_scene) = small_pixels"
  by (simp add: example_scene_simps small_renderer_simps)

lemma example_pixel_counts:
  "map (visible_pixel_count example_renderer example_pixels) [0 ..< 12]
   = [0, 0, 0, 0, 0, 0, 0, 0, 0, 0, 3, 3]"
  by code_simp

lemma small_pixel_counts:
  "map (visible_pixel_count small_renderer small_pixels) [0 ..< 12]
   = [0, 0, 0, 0, 0, 0, 0, 0, 0, 0, 3, 3]"
  by code_simp

lemma example_objects:
  "map (\<lambda>i. IsObject (Nodes example_scene ! i)) [0 ..< 12]
   = [False, False, False, False, False, False, True, False, False, False, True, True]"
  by code_simp

lemma upt_12: "[0 ..< 12] = [0, 1, 2, 3, 4, 5, 6, 7, 8, 9, 10, 11::nat]"
  by code_simp

text \<open>
  In the example scene, when only the table and the lamp are seen, on 3 pixels each, they
  are the qualifying nodes for every threshold from 0 up to 3.
\<close>

lemma example_qualifying_nodes:
  assumes counts: "map (visible_pixel_count rd img) [0 ..< 12] = [0, 0, 0, 0, 0, 0, 0, 0, 0, 0, 3, 3]"
      and low: "0 \<le> min_visible_fraction pv * real_of_int (width pv * height pv)"
      and high: "min_visible_fraction pv * real_of_int (width pv * height pv) < 3"
  shows "qualifying_nodes pv rd example_scene img = [10, 11]"
  using counts example_objects low high
  unfolding qualifying_nodes_def example_scene_simps upt_12
  by (simp del: of_int_mult)

lemma example_qualifying:
  assumes counts: "map (visible_pixel_count rd img) [0 ..< 12] = [0, 0, 0, 0, 0, 0, 0, 0, 0, 0, 3, 3]"
      and low: "0 \<le> min_visible_fraction pv * real_of_int (width pv * height pv)"
      and high: "min_visible_fraction pv * real_of_int (width pv * height pv) < 3"
  shows "qualifying_count pv rd example_scene img = 2"
    and "qualifying_pixels pv rd example_scene img = 6"
  using counts
  unfolding qualifying_count_def qualifying_pixels_def example_qualifying_nodes [OF assms] upt_12
  by simp_all

lemma example_threshold:
  "min_visible_fraction example_variables
     * real_of_int (width example_variables * height example_variables) = 2"
  by (simp add: example_variables_simps)

lemma small_threshold:
  "min_visible_fraction small_variables
     * real_of_int (width small_variables * height small_variables) = 1 / 10"
  by (simp add: small_variables_simps)

text \<open>
  Claim C5 says that with method 0 the score is \<open>k * p / image_pixel_count\<close> when
  \<open>k > min_visible_objects\<close>.  That fails where the minimum pixel count per object
  truncates to 0: the function returns 0 before it renders.  With 5 by 2 pixels and
  \<open>min_visible_fraction = 0.01\<close> the threshold is 0.1; the table and the lamp qualify with 3
  pixels each, so \<open>k = 2 > 1\<close> and the formula gives \<open>2 * 6 / 10\<close>, but the score is 0.
\<close>

theorem method0_score_zero_threshold:
  "fst (SceneCoverageScore small_variables small_renderer example_camera example_scene None)
   = Some 0
   \<and> method0_formula small_variables small_renderer example_scene
        (RenderImage small_renderer example_camera (Root example_scene)) = 6 / 5"
proof -
  have low: "0 \<le> min_visible_fraction small_variables
                  * real_of_int (width small_variables * height small_variables)"
    and high: "min_visible_fraction small_variables
                  * real_of_int (width small_variables * height small_variables) < 3"
    unfolding small_threshold by simp_all
  have "fst (SceneCoverageScore small_variables small_renderer example_camera example_scene None)
        = Some 0"
    by (simp add: SceneCoverageScore_def small_variables_simps int_wrap_def c_int_def Let_def)
  moreover have "method0_formula small_variables small_renderer example_scene
        (RenderImage small_renderer example_camera (Root example_scene)) = 6 / 5"
    unfolding small_image method0_formula_def example_qualifying [OF small_pixel_counts low high]
    by (simp add: small_variables_simps)
  ultimately show ?thesis by simp
qed

text \<open>
  Claim C5, amended.  With method 0, when the minimum pixel count per object
  \<open>(int) (min_visible_fraction * width * height)\<close> is not 0 (and the two \<^verbatim>\<open>int\<close> products
  \<open>width * height\<close> and \<open>k * p\<close> are in the range of \<^verbatim>\<open>int\<close>), the score is the formula of the
  specification, counted on the image rendered from the root of the scene: a node
  qualifies iff it is an object and its pixel count exceeds
  \<open>min_visible_fraction * width * height\<close>.
\<close>

theorem method0_score_is_formula:
  assumes "scene_scoring_method pv = 0"
      and "INT_MIN \<le> width pv * height pv" and "width pv * height pv \<le> INT_MAX"
      and "c_int (min_visible_fraction pv * real_of_int (width pv * height pv)) \<noteq> 0"
      and "qualifying_count pv rd scn (RenderImage rd camera (Root scn))
           * qualifying_pixels pv rd scn (RenderImage rd camera (Root scn)) \<le> INT_MAX"
  shows "fst (SceneCoverageScore pv rd camera scn parent_node)
         = Some (method0_formula pv rd scn (RenderImage rd camera (Root scn)))"
  using assms by (rule method0_score)

lemma example_bounds:
  "0 \<le> min_visible_fraction example_variables
          * real_of_int (width example_variables * height example_variables)"
  "min_visible_fraction example_variables
          * real_of_int (width example_variables * height example_variables) < 3"
  unfolding example_threshold by simp_all

theorem method0_score_is_formula_witness:
  "scene_scoring_method example_variables = 0
   \<and> c_int (min_visible_fraction example_variables
             * real_of_int (width example_variables * height example_variables)) = 2
   \<and> qualifying_count example_variables example_renderer example_scene
        (RenderImage example_renderer example_camera (Root example_scene)) = 2
   \<and> qualifying_pixels example_variables example_renderer example_scene
        (RenderImage example_renderer example_camera (Root example_scene)) = 6
   \<and> fst (SceneCoverageScore example_variables example_renderer example_camera example_scene (Some 1))
     = Some (method0_formula example_variables example_renderer example_scene
               (RenderImage example_renderer example_camera (Root example_scene)))
   \<and> method0_formula example_variables example_renderer example_scene
        (RenderImage example_renderer example_camera (Root example_scene)) = 3 / 50"
proof -
  note q = example_qualifying [OF example_pixel_counts example_bounds, folded example_image]
  have m: "c_int (min_visible_fraction example_variables
             * real_of_int (width example_variables * height example_variables)) = 2"
    unfolding example_threshold by (simp add: c_int_def)
  have h1: "scene_scoring_method example_variables = 0"
    by (simp add: example_variables_simps)
  have h2: "INT_MIN \<le> width example_variables * height example_variables"
    by (simp add: example_variables_simps INT_MIN_def)
  have h3: "width example_variables * height example_variables \<le> INT_MAX"
    by (simp add: example_variables_simps INT_MAX_def)
  have h4: "c_int (min_visible_fraction example_variables
             * real_of_int (width example_variables * height example_variables)) \<noteq> 0"
    unfolding m by simp
  have h5: "qualifying_count example_variables example_renderer example_scene
              (RenderImage example_renderer example_camera (Root example_scene))
            * qualifying_pixels example_variables example_renderer example_scene
              (RenderImage example_renderer example_camera (Root example_scene)) \<le> INT_MAX"
    unfolding q by (simp add: INT_MAX_def)
  have f: "method0_formula example_variables example_renderer example_scene
        (RenderImage example_renderer example_camera (Root example_scene)) = 3 / 50"
    unfolding method0_formula_def q by (simp add: example_variables_simps)
  from method0_score_is_formula [OF h1 h2 h3 h4 h5, of "Some 1"] h1 m q f
  show ?thesis by simp
qed

subsection \<open>The range of the scores\<close>

text \<open>
  What holds of the ranges.  After any sequence of earlier calls, the object coverage
  score of a camera and a node lies between 0 and 1 and is 0 when the total area of the
  node is zero (given that the library's \<^verbatim>\<open>RNIsZero\<close> accepts 0).  The scene coverage score is
  a finite number that is not negative, for image sizes and a fraction that are not
  negative, while \<open>width * height\<close> and (for method 0) \<open>k * p\<close> are in the range of \<^verbatim>\<open>int\<close>.
\<close>

lemma coverage_scores_in_range:
  assumes "RNIsZero sq 0"
      and "0 \<le> width pv" and "0 \<le> height pv" and "width pv * height pv \<le> INT_MAX"
      and "0 \<le> min_visible_fraction pv"
      and "scene_scoring_method pv \<noteq> 0
           \<or> qualifying_count pv rd scn (RenderImage rd camera (Root scn))
             * qualifying_pixels pv rd scn (RenderImage rd camera (Root scn)) \<le> INT_MAX"
  shows "0 \<le> fst (ObjectCoverageScore sq (statics_after sq calls) view node)
       \<and> fst (ObjectCoverageScore sq (statics_after sq calls) view node) \<le> 1
       \<and> (total_area_of sq node = 0
            \<longrightarrow> fst (ObjectCoverageScore sq (statics_after sq calls) view node) = 0)
       \<and> (\<exists>s. fst (SceneCoverageScore pv rd camera scn parent_node) = Some s \<and> 0 \<le> s)"
proof (intro conjI impI)
  show "0 \<le> fst (ObjectCoverageScore sq (statics_after sq calls) view node)"
    and "fst (ObjectCoverageScore sq (statics_after sq calls) view node) \<le> 1"
    using ObjectCoverageScore_range [of sq "statics_after sq calls" view node] by simp_all
next
  assume "total_area_of sq node = 0"
  with assms(1) have "RNIsZero sq (total_area_of sq node)" by simp
  with statics_consistent_after
  show "fst (ObjectCoverageScore sq (statics_after sq calls) view node) = 0"
    by (rule ObjectCoverageScore_zero_area)
next
  from assms(2-6)
  show "\<exists>s. fst (SceneCoverageScore pv rd camera scn parent_node) = Some s \<and> 0 \<le> s"
    by (rule scene_score_nonneg)
qed

lemma example_query_simps:
  "RNIsZero example_query x = (\<bar>x\<bar> \<le> 0.000001)"
  "ScaleFactor example_query node = 1"
  "Elements example_query 6 = []"
  "Elements example_query 10 = [[R3OtherShape 255, R3TriangleArray 1 [\<lparr>TriangleArea = 1\<rparr>]]]"
  "Intersects example_query origin point max_t = Some (Some 10, max_t)"
  "RNIsEqual example_query a b tolerance = (\<bar>a - b\<bar> \<le> tolerance)"
  "RNRandomScalar example_query n = 0.5"
  "RandomPoint example_query triangle n = (real n, 0, 0)"
  by (simp_all add: example_query_def)

lemma example_chair_area: "total_area_of example_query 6 = 0"
  by (simp add: total_area_of_def example_query_simps)

lemma example_table_area: "total_area_of example_query 10 = 256"
  by (simp add: total_area_of_def example_query_simps)

lemma example_table_points: "generate_points example_query 10 256 = [(0, 0, 0), (1, 0, 0)]"
  by (simp add: generate_points_def example_query_simps sample_triangle_def Let_def
        target_npoints_def max_npoints_def c_int_def upt_rec)

lemma example_statics: 
  "statics_after example_query [(example_camera, 6)] = \<lparr>last_node = Some 6, points = []\<rparr>"
  by (simp add: statics_after_def initial_statics_def ObjectCoverageScore_def example_chair_area
        example_query_simps)

lemma example_table_score:
  "fst (ObjectCoverageScore example_query (statics_after example_query [(example_camera, 6)])
          example_camera 10) = 1"
  by (simp add: example_statics ObjectCoverageScore_def example_table_area example_table_points
        example_query_simps point_is_visible_def Let_def)

lemma coverage_scores_in_range_example:
  "RNIsZero example_query 0
   \<and> total_area_of example_query 6 = 0
   \<and> fst (ObjectCoverageScore example_query (statics_after example_query [(example_camera, 6)])
            example_camera 6) = 0
   \<and> fst (ObjectCoverageScore example_query (statics_after example_query [(example_camera, 6)])
            example_camera 10) = 1
   \<and> 0 \<le> fst (ObjectCoverageScore example_query (statics_after example_query [(example_camera, 6)])
            example_camera 10)
   \<and> fst (ObjectCoverageScore example_query (statics_after example_query [(example_camera, 6)])
            example_camera 10) \<le> 1
   \<and> (\<exists>s. fst (SceneCoverageScore example_variables example_renderer example_camera example_scene
                   (Some 2)) = Some s \<and> 0 \<le> s)"
proof -
  note q = example_qualifying [OF example_pixel_counts example_bounds, folded example_image]
  have h1: "RNIsZero example_query 0"
    by (simp add: example_query_simps)
  have h2: "0 \<le> width example_variables" and h3: "0 \<le> height example_variables"
    and h4: "width example_variables * height example_variables \<le> INT_MAX"
    and h5: "0 \<le> min_visible_fraction example_variables"
    by (simp_all add: example_variables_simps INT_MAX_def)
  have h6: "scene_scoring_method example_variables \<noteq> 0
           \<or> qualifying_count example_variables example_renderer example_scene
               (RenderImage example_renderer example_camera (Root example_scene))
             * qualifying_pixels example_variables example_renderer example_scene
               (RenderImage example_renderer example_camera (Root example_scene)) \<le> INT_MAX"
    unfolding q by (simp add: INT_MAX_def)
  note chair = coverage_scores_in_range [OF h1 h2 h3 h4 h5 h6,
      of "[(example_camera, 6)]" example_camera 6 "Some 2"]
  note table = coverage_scores_in_range [OF h1 h2 h3 h4 h5 h6,
      of "[(example_camera, 6)]" example_camera 10 "Some 2"]
  from chair table h1 example_chair_area example_table_score show ?thesis
    by simp
qed

subsection \<open>The sign of the scene coverage score on a large image\<close>

text \<open>
  Method 0 without a bound on the product: the score is the quotient of the wrapped
  product \<open>k * p\<close> and the number of pixels.
\<close>

lemma method0_score_wrapped:
  assumes scoring: "scene_scoring_method pv = 0"
      and range: "INT_MIN \<le> width pv * height pv" "width pv * height pv \<le> INT_MAX"
      and threshold: "c_int (min_visible_fraction pv * real_of_int (width pv * height pv)) \<noteq> 0"
  shows "fst (SceneCoverageScore pv rd camera scn parent_node)
         = Some (if real_of_int (qualifying_count pv rd scn (RenderImage rd camera (Root scn)))
                    > min_visible_objects pv
                 then real_of_int (int_wrap (qualifying_count pv rd scn (RenderImage rd camera (Root scn))
                                             * qualifying_pixels pv rd scn (RenderImage rd camera (Root scn))))
                      / real_of_int (width pv * height pv)
                 else 0)"
proof -
  have wrap: "int_wrap (width pv * height pv) = width pv * height pv"
    using range by (rule int_wrap_id)
  have nonzero: "width pv * height pv \<noteq> 0"
    using threshold c_int_zero by fastforce
  show ?thesis
    unfolding SceneCoverageScore_def wrap Let_def
    using nonzero threshold scoring
    by (simp add: method0_loop_eq [OF threshold] del: of_int_mult)
qed

text \<open>The large image, evaluated.\<close>

lemma length_filter_blocks:
  "length (filter P (concat (map (\<lambda>j. replicate n (f j)) js)))
   = n * length (filter (\<lambda>j. P (f j)) js)"
  by (induction js) simp_all

lemma length_filter_eq_upt:
  "length (filter (\<lambda>j. j = i) [a ..< b]) = (if a \<le> i \<and> i < b then 1 else 0)"
  by (induction b) auto

lemma c_int_nat_half: "c_int (real j + 1 / 2) = int j"
  unfolding c_int_def by simp

lemma big_visible_pixel_count:
  "visible_pixel_count big_renderer big_pixels i = (if 5 \<le> i \<and> i < 95 then 277777 else 0)"
proof -
  have unknown: "R2_GRID_UNKNOWN_VALUE big_renderer = - 12345678"
    by (simp add: big_renderer_def)
  have "(\<lambda>j. real j \<noteq> - 12345678 \<and> c_int (real j + 0.5) = int i) = (\<lambda>j. j = i)"
    by (auto simp: c_int_nat_half fun_eq_iff)
  then show ?thesis
    unfolding visible_pixel_count_def big_pixels_def unknown
    by (simp add: length_filter_blocks length_filter_eq_upt del: upt_rec_numeral)
qed

lemma big_variables_simps:
  "width big_variables = 5000" "height big_variables = 5000"
  "scene_scoring_method big_variables = 0" "min_visible_objects big_variables = 3"
  "min_visible_fraction big_variables = 1 / 100"
  by (simp_all add: big_variables_def example_variables_def)

lemma big_scene_simps:
  "NNodes big_scene = 95" "Root big_scene = 0"
  "5 \<le> i \<Longrightarrow> i < 95 \<Longrightarrow> IsObject (Nodes big_scene ! i) = True"
proof -
  show "NNodes big_scene = 95" "Root big_scene = 0"
    by (simp_all add: big_scene_def NNodes_def)
  have "IsObject \<lparr>Name = Some ''Object#box'', Children = [], Parent = Some 1\<rparr>"
    by code_simp
  then show "5 \<le> i \<Longrightarrow> i < 95 \<Longrightarrow> IsObject (Nodes big_scene ! i) = True"
    by (simp add: big_scene_def nth_Cons')
qed

lemma big_image: "RenderImage big_renderer camera root_node = big_pixels"
  by (simp add: big_renderer_def)

lemma big_qualifying_nodes:
  "qualifying_nodes big_variables big_renderer big_scene big_pixels = [5 ..< 95]"
proof -
  have split: "[0 ..< 95] = [0, 1, 2, 3, 4] @ [5 ..< 95]"
    by (simp add: upt_conv_Cons)
  show ?thesis
    unfolding qualifying_nodes_def big_scene_simps split
    by (simp add: big_scene_simps big_variables_simps big_visible_pixel_count del: upt_rec_numeral)
qed

lemma big_qualifying_count:
  "qualifying_count big_variables big_renderer big_scene big_pixels = 90"
  by (simp add: qualifying_count_def big_qualifying_nodes del: upt_rec_numeral)

lemma big_qualifying_pixels:
  "qualifying_pixels big_variables big_renderer big_scene big_pixels = 24999930"
proof -
  have "map (visible_pixel_count big_renderer big_pixels) [5 ..< 95]
        = map (\<lambda>i. 277777) [5 ..< 95]"
    by (rule map_cong [OF refl]) (simp add: big_visible_pixel_count del: upt_rec_numeral)
  then have "map (visible_pixel_count big_renderer big_pixels) [5 ..< 95] = replicate 90 277777"
    unfolding map_replicate_const by (simp del: upt_rec_numeral)
  then show ?thesis
    by (simp add: qualifying_pixels_def big_qualifying_nodes sum_list_replicate del: upt_rec_numeral)
qed

lemma big_wrap: "int_wrap (90 * 24999930) = - 2044973596"
  by (simp add: int_wrap_def INT_MAX_def INT_MIN_def)

text \<open>
  Claim C8 says that the object coverage score lies in \<open>[0, 1]\<close> (and is 0 for a node
  without surface) and that the scene coverage score of either method is never negative.
  The object coverage score is as the claim says.  Method 0 of the scene coverage score
  multiplies two \<^verbatim>\<open>int\<close>s, the number of qualifying objects and the sum of their pixel
  counts, before the division converts to \<^verbatim>\<open>double\<close>.  On an image of 5000 by 5000 pixels
  that shows 90 objects on 277777 pixels each, the product \<open>90 * 24999930\<close> is beyond the
  range of \<^verbatim>\<open>int\<close>; it wraps to \<open>- 2044973596\<close>, and the score is negative.
\<close>

theorem scene_score_negative_on_overflow:
  "fst (SceneCoverageScore big_variables big_renderer example_camera big_scene (Some 1))
   = Some (- 2044973596 / 25000000)
   \<and> qualifying_count big_variables big_renderer big_scene
        (RenderImage big_renderer example_camera (Root big_scene)) = 90
   \<and> qualifying_pixels big_variables big_renderer big_scene
        (RenderImage big_renderer example_camera (Root big_scene)) = 24999930
   \<and> (- 2044973596 / 25000000 :: real) < 0"
proof -
  have scoring: "scene_scoring_method big_variables = 0"
    by (simp add: big_variables_simps)
  have range: "INT_MIN \<le> width big_variables * height big_variables"
              "width big_variables * height big_variables \<le> INT_MAX"
    by (simp_all add: big_variables_simps INT_MIN_def INT_MAX_def)
  have threshold: "c_int (min_visible_fraction big_variables
                          * real_of_int (width big_variables * height big_variables)) \<noteq> 0"
    by (simp add: big_variables_simps c_int_def)
  from method0_score_wrapped [OF scoring range threshold, of big_renderer example_camera big_scene "Some 1"]
  show ?thesis
    unfolding big_image big_qualifying_count big_qualifying_pixels big_wrap
    by (simp add: big_variables_simps)
qed

subsection \<open>Scoring method 1\<close>

lemma example_counted_nodes:
  "filter (counts_towards_score example_scene [0, 0, 0, 0, 0, 0, 0, 0, 0, 0, 3, 3] 2) [0 ..< 12]
   = [10, 11]"
  by code_simp

lemma example_method1_loop:
  "method1_loop example_scene [0, 0, 0, 0, 0, 0, 0, 0, 0, 0, 3, 3] 2 = (2, Some 0)"
  by (simp add: method1_loop_def foldl_method1_step example_scene_simps example_counted_nodes
        c_div_def c_log_def add_scalar_def)

text \<open>
  Claim C4 says that with method 1 the score is the sum over the qualifying nodes of the
  logarithm of the pixel count divided by the threshold, as a real quotient.  The function
  divides two ints.  With 20 by 10 pixels and \<open>min_visible_fraction = 0.01\<close> the threshold is
  2; the table and the lamp qualify with 3 pixels each; the claim gives \<open>2 * ln (3/2) > 0\<close>,
  the function \<open>ln 1 + ln 1 = 0\<close>.
\<close>

theorem method1_quotient_is_truncated:
  "fst (SceneCoverageScore (example_variables\<lparr>scene_scoring_method := 1\<rparr>)
          example_renderer example_camera example_scene None) = Some 0
   \<and> min_visible_fraction (example_variables\<lparr>scene_scoring_method := 1\<rparr>)
       * real_of_int (width (example_variables\<lparr>scene_scoring_method := 1\<rparr>)
                      * height (example_variables\<lparr>scene_scoring_method := 1\<rparr>)) = 2
   \<and> method1_formula (example_variables\<lparr>scene_scoring_method := 1\<rparr>) example_renderer
        example_scene (RenderImage example_renderer example_camera (Root example_scene)) 2
       = 2 * ln (3 / 2)
   \<and> 0 < 2 * ln (3 / 2 :: real)"
proof -
  let ?pv = "example_variables\<lparr>scene_scoring_method := 1\<rparr>"
  have threshold: "min_visible_fraction ?pv * real_of_int (width ?pv * height ?pv) = 2"
    by (simp add: example_variables_simps)
  have low: "0 \<le> min_visible_fraction ?pv * real_of_int (width ?pv * height ?pv)"
    and high: "min_visible_fraction ?pv * real_of_int (width ?pv * height ?pv) < 3"
    unfolding threshold by simp_all
  have mvo: "min_visible_objects ?pv = 1"
    by (simp add: example_variables_def)
  have "fst (SceneCoverageScore ?pv example_renderer example_camera example_scene None) = Some 0"
    by (simp add: SceneCoverageScore_def Let_def example_variables_simps example_scene_simps
          example_renderer_simps int_wrap_def c_int_def example_node_pixel_counts
          example_method1_loop)
  moreover have "method1_formula ?pv example_renderer example_scene
        (RenderImage example_renderer example_camera (Root example_scene)) 2 = 2 * ln (3 / 2)"
    unfolding example_image method1_formula_def
      example_qualifying [OF example_pixel_counts low high]
      example_qualifying_nodes [OF example_pixel_counts low high] mvo
    using example_pixel_counts unfolding upt_12 by simp
  moreover have "0 < 2 * ln (3 / 2 :: real)"
    by simp
  ultimately show ?thesis using threshold by simp
qed

subsection \<open>Camera interpolation\<close>

lemma resample_parameters_past_end:
  "\<not> u \<le> end_parameter \<Longrightarrow> resample_parameters rounded_sum trajectory_step end_parameter u = Some []"
  by (subst resample_parameters.simps) simp

lemma resample_parameters_returns:
  assumes "0 < \<delta>"
      and "\<forall>v. start_parameter \<le> v \<and> v \<le> end_parameter \<longrightarrow> v + \<delta> \<le> rounded_sum v trajectory_step"
  shows "start_parameter \<le> u \<Longrightarrow> end_parameter - u < real n * \<delta> \<Longrightarrow>
         \<exists>us. resample_parameters rounded_sum trajectory_step end_parameter u = Some us
              \<and> (if u \<le> end_parameter then us \<noteq> [] \<and> hd us = u else us = [])"
proof (induction n arbitrary: u)
  case 0
  then have "\<not> u \<le> end_parameter" by simp
  then show ?case by (simp add: resample_parameters_past_end)
next
  case (Suc n)
  show ?case
  proof (cases "u \<le> end_parameter")
    case False
    then show ?thesis by (simp add: resample_parameters_past_end)
  next
    case True
    with Suc.prems assms(2) have advance: "u + \<delta> \<le> rounded_sum u trajectory_step"
      by blast
    with assms(1) Suc.prems have "start_parameter \<le> rounded_sum u trajectory_step"
      by linarith
    moreover from advance Suc.prems have "end_parameter - rounded_sum u trajectory_step < real n * \<delta>"
      by (simp add: algebra_simps)
    ultimately obtain later where
      "resample_parameters rounded_sum trajectory_step end_parameter (rounded_sum u trajectory_step)
       = Some later"
      using Suc.IH by blast
    with True show ?thesis
      by (subst resample_parameters.simps) simp
  qed
qed

lemma resample_parameters_Some:
  assumes "0 < \<delta>"
      and "\<forall>v. start_parameter \<le> v \<and> v \<le> end_parameter \<longrightarrow> v + \<delta> \<le> rounded_sum v trajectory_step"
  shows "\<exists>us. resample_parameters rounded_sum trajectory_step end_parameter start_parameter = Some us
              \<and> (if start_parameter \<le> end_parameter then us \<noteq> [] \<and> hd us = start_parameter
                  else us = [])"
proof -
  from assms(1) obtain n where "end_parameter - start_parameter < real n * \<delta>"
    using ex_less_of_nat_mult by blast
  with assms
    resample_parameters_returns
      [of \<delta> start_parameter end_parameter rounded_sum trajectory_step start_parameter n]
  show ?thesis
    by simp
qed

text \<open>
  Where a rounded sum leaves the loop parameter as it is, at or before the end parameter,
  the loop does not end.
\<close>

lemma resample_parameters_stuck:
  assumes "u \<le> end_parameter" and "rounded_sum u trajectory_step = u"
  shows "resample_parameters rounded_sum trajectory_step end_parameter u = None"
proof (cases "resample_parameters rounded_sum trajectory_step end_parameter u")
  case None
  then show ?thesis .
next
  case (Some us)
  from assms(1) have unrolled:
    "resample_parameters rounded_sum trajectory_step end_parameter u
     = Option.bind
         (resample_parameters rounded_sum trajectory_step end_parameter (rounded_sum u trajectory_step))
         (\<lambda>later. Some (u # later))"
    using resample_parameters.simps [of rounded_sum trajectory_step end_parameter u] by simp
  have "Some us = Option.bind (Some us) (\<lambda>later. Some (u # later))"
    using unrolled unfolding assms(2) Some .
  then show ?thesis by simp
qed

lemma resampled_camera_fields:
  "XFOV (resampled_camera sl cams parameters u) = XFOV (hd cams)"
  "YFOV (resampled_camera sl cams parameters u) = YFOV (hd cams)"
  "Near (resampled_camera sl cams parameters u) = Near (hd cams)"
  "Far (resampled_camera sl cams parameters u) = Far (hd cams)"
  by (simp_all add: resampled_camera_def)

lemma example_single_keypoint:
  "keypoint_parameters example_spline [new_Camera example_camera (Some ''Object#table'')] = [0]"
  by (simp add: keypoint_parameters_def)

lemma example_resample: "resample_parameters (\<lambda>a b. a + b) (1 / 10) 0 0 = Some [0]"
  by (subst resample_parameters.simps, simp, subst resample_parameters.simps, simp)

lemma example_spline_simps:
  "StartParameter example_spline keypoints parameters = hd parameters"
  "EndParameter example_spline keypoints parameters = last parameters"
  "PointPosition example_spline keypoints parameters u = hd keypoints"
  "percent_f example_spline 0 = ''0.000000''"
  "add_RNScalar example_spline = (\<lambda>a b. a + b)"
  by (simp_all add: example_spline_def)

text \<open>
  Claim C2 says that with fewer than 2 cameras the interpolator fails with an
  InsufficientDataError and does not resample.  The function has no such test: with the
  one camera of the example it returns 1 and leaves one resampled camera.
\<close>

theorem InterpolateCameraTrajectory_single_camera:
  "InterpolateCameraTrajectory example_spline (1 / 10)
     [new_Camera example_camera (Some ''Object#table'')]
   = Inr (1, [\<lparr>Origin = (1, 1, 1.5), Towards = (1, 0, 0), Up = (0, 0, 1),
                XFOV = 0.5, YFOV = 0.4, Near = 0.01, Far = 100, Value = 0,
                name = Some ''T0.000000''\<rparr>])"
  by (simp add: InterpolateCameraTrajectory_def Let_def example_single_keypoint example_spline_simps
        example_resample)
     (simp add: resampled_camera_def example_spline_simps new_Camera_def R3Camera.defs Camera.defs
        example_camera_def)

text \<open>
  Claim C2, amended.  The interpolator does not test the number of cameras.  With one or
  more cameras, and rounded sums that advance the loop parameter by at least some positive
  amount wherever it lies between the spline's start and end parameters, it returns 1 and
  replaces the camera list by the resampled cameras: none when the start parameter is
  after the end parameter, and otherwise at least one, the first of them resampled at the
  start parameter; each has the fields of view and clip distances of the first input
  camera.
\<close>

theorem InterpolateCameraTrajectory_accepts_any_camera:
  assumes "cams \<noteq> []"
      and "0 < \<delta>"
      and "\<forall>u. StartParameter sl (map Origin cams) (keypoint_parameters sl cams) \<le> u
               \<and> u \<le> EndParameter sl (map Origin cams) (keypoint_parameters sl cams)
               \<longrightarrow> u + \<delta> \<le> add_RNScalar sl u trajectory_step"
  shows "\<exists>out. InterpolateCameraTrajectory sl trajectory_step cams = Inr (1, out)
           \<and> (if StartParameter sl (map Origin cams) (keypoint_parameters sl cams)
                   \<le> EndParameter sl (map Origin cams) (keypoint_parameters sl cams)
               then out \<noteq> []
                  \<and> hd out = resampled_camera sl cams (keypoint_parameters sl cams)
                               (StartParameter sl (map Origin cams) (keypoint_parameters sl cams))
               else out = [])
           \<and> (\<forall>c \<in> set out. XFOV c = XFOV (hd cams) \<and> YFOV c = YFOV (hd cams)
                               \<and> Near c = Near (hd cams) \<and> Far c = Far (hd cams))"
proof -
  let ?parameters = "keypoint_parameters sl cams"
  let ?start = "StartParameter sl (map Origin cams) ?parameters"
  let ?end = "EndParameter sl (map Origin cams) ?parameters"
  from assms(2) assms(3)
    resample_parameters_Some [of \<delta> ?start ?end "add_RNScalar sl" trajectory_step]
  obtain us where us: "resample_parameters (add_RNScalar sl) trajectory_step ?end ?start = Some us"
    and shape: "if ?start \<le> ?end then us \<noteq> [] \<and> hd us = ?start else us = []"
    by blast
  let ?out = "map (resampled_camera sl cams ?parameters) us"
  from assms(1) us have "InterpolateCameraTrajectory sl trajectory_step cams = Inr (1, ?out)"
    by (simp add: InterpolateCameraTrajectory_def Let_def)
  moreover from shape have "if ?start \<le> ?end
      then ?out \<noteq> [] \<and> hd ?out = resampled_camera sl cams ?parameters ?start else ?out = []"
    by (simp add: hd_map split: if_splits)
  moreover have "\<forall>c \<in> set ?out. XFOV c = XFOV (hd cams) \<and> YFOV c = YFOV (hd cams)
                               \<and> Near c = Near (hd cams) \<and> Far c = Far (hd cams)"
    by (auto simp: resampled_camera_fields)
  ultimately show ?thesis by blast
qed

theorem InterpolateCameraTrajectory_accepts_any_camera_witness:
  "[new_Camera example_camera (Some ''Object#table'')] \<noteq> []
   \<and> (0::real) < 1 / 10
   \<and> (\<forall>u. u + 1 / 10 \<le> add_RNScalar example_spline u (1 / 10))
   \<and> (\<exists>out. InterpolateCameraTrajectory example_spline (1 / 10)
               [new_Camera example_camera (Some ''Object#table'')] = Inr (1, out)
            \<and> out \<noteq> []
            \<and> hd out = resampled_camera example_spline [new_Camera example_camera (Some ''Object#table'')] [0] 0
            \<and> (\<forall>c \<in> set out. XFOV c = 0.5 \<and> YFOV c = 0.4 \<and> Near c = 0.01 \<and> Far c = 100))"
proof -
  let ?cams = "[new_Camera example_camera (Some ''Object#table'')]"
  have h1: "?cams \<noteq> []" by simp
  have h2: "(0::real) < 1 / 10" by simp
  have h3: "\<forall>u. StartParameter example_spline (map Origin ?cams) (keypoint_parameters example_spline ?cams) \<le> u
               \<and> u \<le> EndParameter example_spline (map Origin ?cams) (keypoint_parameters example_spline ?cams)
               \<longrightarrow> u + 1 / 10 \<le> add_RNScalar example_spline u (1 / 10)"
    by (simp add: example_spline_simps)
  have fields: "XFOV (hd ?cams) = 0.5" "YFOV (hd ?cams) = 0.4" "Near (hd ?cams) = 0.01" "Far (hd ?cams) = 100"
    by (simp_all add: new_Camera_def example_camera_def R3Camera.defs Camera.defs)
  have advance: "\<forall>u. u + 1 / 10 \<le> add_RNScalar example_spline u (1 / 10)"
    by (simp add: example_spline_simps)
  from InterpolateCameraTrajectory_accepts_any_camera [OF h1 h2 h3]
  have "\<exists>out. InterpolateCameraTrajectory example_spline (1 / 10) ?cams = Inr (1, out)
            \<and> out \<noteq> []
            \<and> hd out = resampled_camera example_spline ?cams [0] 0
            \<and> (\<forall>c \<in> set out. XFOV c = 0.5 \<and> YFOV c = 0.4 \<and> Near c = 0.01 \<and> Far c = 100)"
    unfolding fields by (simp add: example_single_keypoint example_spline_simps)
  with h1 h2 advance show ?thesis by blast
qed

end
